theory Spec2Isabelle
  imports Complex_Main "HOL-Library.Word"
begin

section \<open>Particle-passing transport: the single-photon tracker\<close>

text \<open>
  This theory embeds \<^verbatim>\<open>transport_particle_pass.h\<close>: the tracker
  \<^verbatim>\<open>transport_photon_particle_pass\<close> and the driver \<^verbatim>\<open>transport_particle_pass\<close>.

  Conventions of the embedding.
  \<^item> A C++ \<^verbatim>\<open>double\<close> is a value of a type \<open>'f\<close>. Neither the arithmetic of the source
    (\<^verbatim>\<open>+ - * /\<close>, \<^verbatim>\<open>exp\<close>, \<^verbatim>\<open>log\<close>, literals) nor its comparisons (\<^verbatim>\<open><\<close>, \<^verbatim>\<open>==\<close>) are
    interpreted: they are the parameter \<open>fp\<close>, so a theorem without a hypothesis on \<open>fp\<close>
    holds for whatever these operations compute (rounding, infinities, division by zero,
    and NaN, which is neither less than nor equal to anything, itself included).
  \<^item> Cell identifiers, ranks, face numbers and buffer indices are natural numbers; the
    source only copies and compares them.
  \<^item> The classes \<^verbatim>\<open>Photon\<close>, \<^verbatim>\<open>Cell\<close>, \<^verbatim>\<open>Mesh\<close>, \<^verbatim>\<open>RNG\<close>, \<^verbatim>\<open>Source\<close>, \<^verbatim>\<open>Buffer\<close> and
    the header \<^verbatim>\<open>constants.h\<close> are not part of the sources at hand. Data they hold are
    record fields, functions that compute geometry or random numbers are parameters, and
    the few member functions whose effect matters are modelled from the specification.
\<close>

subsection \<open>Constants\<close>

datatype event_type = KILL | EXIT | PASS | CENSUS | WAIT

datatype bc_type = REFLECT | VACUUM | ELEMENT | PROCESSOR

subsection \<open>Uninterpreted floating-point arithmetic\<close>

record 'f fpu =
  fp_lit :: "rat \<Rightarrow> 'f"
  fp_add :: "'f \<Rightarrow> 'f \<Rightarrow> 'f"
  fp_sub :: "'f \<Rightarrow> 'f \<Rightarrow> 'f"
  fp_mul :: "'f \<Rightarrow> 'f \<Rightarrow> 'f"
  fp_div :: "'f \<Rightarrow> 'f \<Rightarrow> 'f"
  fp_neg :: "'f \<Rightarrow> 'f"
  fp_exp :: "'f \<Rightarrow> 'f"
  fp_log :: "'f \<Rightarrow> 'f"
  fp_lt :: "'f \<Rightarrow> 'f \<Rightarrow> bool"
  fp_eq :: "'f \<Rightarrow> 'f \<Rightarrow> bool"

text \<open>
  \<^verbatim>\<open>std::min(a, b)\<close> returns \<open>b\<close> when \<open>b < a\<close> and \<open>a\<close> otherwise; when a comparison with
  NaN is false, that is its first argument.
\<close>

definition std_min :: "'f fpu \<Rightarrow> 'f \<Rightarrow> 'f \<Rightarrow> 'f" where
  "std_min fp a b = (if fp_lt fp b a then b else a)"

subsection \<open>Photon\<close>

type_synonym 'f vec3 = "'f \<times> 'f \<times> 'f"

record 'f photon =
  ph_cell :: nat
  ph_pos :: "'f vec3"
  ph_angle :: "'f vec3"
  ph_E :: 'f
  ph_E0 :: 'f
  ph_distance_remaining :: 'f
  ph_census_flag :: bool
  ph_alive :: bool

text \<open>
  Modelled from the spec: \<^verbatim>\<open>Photon::move\<close> (photon.h is missing). "Advance position by
  \<open>d\<close> along direction; decrement \<open>distance_remaining\<close> by \<open>d\<close>."
\<close>

definition move :: "'f fpu \<Rightarrow> 'f \<Rightarrow> 'f photon \<Rightarrow> 'f photon" where
  "move fp d p =
     (case (ph_pos p, ph_angle p) of
        ((x, y, z), (ax, ay, az)) \<Rightarrow>
          p\<lparr>ph_pos := (fp_add fp x (fp_mul fp ax d),
                       fp_add fp y (fp_mul fp ay d),
                       fp_add fp z (fp_mul fp az d)),
            ph_distance_remaining := fp_sub fp (ph_distance_remaining p) d\<rparr>)"

text \<open>
  Modelled from the spec: \<^verbatim>\<open>Photon::below_cutoff\<close> (photon.h is missing).
  "If \<open>E < cutoff_fraction \<cdot> E_initial\<close>".
\<close>

definition below_cutoff :: "'f fpu \<Rightarrow> 'f photon \<Rightarrow> 'f \<Rightarrow> bool" where
  "below_cutoff fp p cutoff_fraction \<longleftrightarrow>
     fp_lt fp (ph_E p) (fp_mul fp cutoff_fraction (ph_E0 p))"

text \<open>
  Modelled from the spec: \<^verbatim>\<open>Photon::set_dead\<close> (photon.h is missing). "The particle is
  marked dead": the alive-flag of the data model is cleared.
\<close>

definition set_dead :: "'f photon \<Rightarrow> 'f photon" where
  "set_dead p = p\<lparr>ph_alive := False\<rparr>"

text \<open>
  Modelled from the spec: \<^verbatim>\<open>Photon::reflect\<close> (photon.h is missing). "Mirror the
  direction component normal to the face." Which component is normal to a face is
  geometry of the mesh: the parameter \<open>mirror\<close>.
\<close>

definition reflect :: "(nat \<Rightarrow> 'f vec3 \<Rightarrow> 'f vec3) \<Rightarrow> nat \<Rightarrow> 'f photon \<Rightarrow> 'f photon" where
  "reflect mirror surface_cross p = p\<lparr>ph_angle := mirror surface_cross (ph_angle p)\<rparr>"

subsection \<open>Cell, mesh and random numbers\<close>

record 'f cell =
  op_a :: 'f
  op_s :: 'f
  fleck :: 'f
  bc :: "nat \<Rightarrow> bc_type"
  next_cell :: "nat \<Rightarrow> nat"

text \<open>
  The collaborators of the tracker. \<^verbatim>\<open>surface_cross\<close> is passed by reference in the
  source: \<open>get_distance_to_boundary\<close> receives its current value and returns the distance
  with the new value. The two random-number functions return the advanced
  generator. \<open>speed_of_light\<close> is \<^verbatim>\<open>Constants::c\<close>.
\<close>

record ('f, 'r) tracker_env =
  fpu_of :: "'f fpu"
  get_on_rank_cell :: "nat \<Rightarrow> 'f cell"
  get_distance_to_boundary :: "'f cell \<Rightarrow> 'f vec3 \<Rightarrow> 'f vec3 \<Rightarrow> nat \<Rightarrow> 'f \<times> nat"
  mirror_of :: "nat \<Rightarrow> 'f vec3 \<Rightarrow> 'f vec3"
  generate_random_number :: "'r \<Rightarrow> 'f \<times> 'r"
  get_uniform_angle :: "'r \<Rightarrow> 'f vec3 \<times> 'r"
  speed_of_light :: 'f

subsection \<open>The tracker\<close>

text \<open>
  The objects that the driver passes to the tracker by reference and that both update:
  the generator behind \<^verbatim>\<open>rng\<close>, \<^verbatim>\<open>next_dt\<close>, \<^verbatim>\<open>exit_E\<close>, \<^verbatim>\<open>census_E\<close> and \<^verbatim>\<open>rank_abs_E\<close>.
\<close>

record ('f, 'r) tally =
  rng :: 'r
  next_dt :: 'f
  exit_E :: 'f
  census_E :: 'f
  rank_abs_E :: "'f list"

text \<open>
  The variables of \<^verbatim>\<open>transport_photon_particle_pass\<close>: the reference parameters and the
  locals that live across iterations of \<^verbatim>\<open>while(active)\<close>. \<^verbatim>\<open>event\<close> is declared without
  an initial value: \<open>None\<close>.
\<close>

record ('f, 'r) tracker_state = "('f, 'r) tally" +
  phtn :: "'f photon"
  cell_id :: nat
  cur_cell :: "'f cell"
  surface_cross :: nat
  active :: bool
  event :: "event_type option"

text \<open>Line 54: \<^verbatim>\<open>double cutoff_fraction = 0.01\<close>.\<close>

definition cutoff_fraction :: "'f fpu \<Rightarrow> 'f" where
  "cutoff_fraction fp = fp_lit fp (1 / 100)"

text \<open>Lines 67-74: the three candidate distances of a segment and their minimum.\<close>

record 'f distances =
  dist_to_scatter :: 'f
  dist_to_boundary :: 'f
  dist_to_census :: 'f
  dist_to_event :: 'f
  face_hit :: nat

definition segment_distances ::
  "('f, 'r) tracker_env \<Rightarrow> ('f, 'r) tracker_state \<Rightarrow> 'f distances \<times> 'r" where
  "segment_distances env ts =
     (let fp = fpu_of env;
          sigma_a = op_a (cur_cell ts);
          sigma_s = op_s (cur_cell ts);
          f = fleck (cur_cell ts);
          (u, rng') = generate_random_number env (rng ts);
          d_scatter = fp_div fp (fp_neg fp (fp_log fp u))
                        (fp_add fp (fp_mul fp (fp_sub fp (fp_lit fp 1) f) sigma_a) sigma_s);
          (d_boundary, face) =
             get_distance_to_boundary env (cur_cell ts) (ph_pos (phtn ts))
               (ph_angle (phtn ts)) (surface_cross ts);
          d_census = ph_distance_remaining (phtn ts)
      in (\<lparr>dist_to_scatter = d_scatter, dist_to_boundary = d_boundary,
            dist_to_census = d_census,
            dist_to_event = std_min fp d_scatter (std_min fp d_boundary d_census),
            face_hit = face\<rparr>, rng'))"

text \<open>
  Lines 77-83: absorption along the segment and the move. \<^verbatim>\<open>rank_abs_E[cell_id]\<close> is an
  unchecked \<^verbatim>\<open>std::vector\<close> access: outside the vector the behaviour is undefined, \<open>None\<close>.
\<close>

definition absorb_and_move ::
  "('f, 'r) tracker_env \<Rightarrow> 'f distances \<Rightarrow> 'r \<Rightarrow> ('f, 'r) tracker_state
     \<Rightarrow> ('f, 'r) tracker_state option" where
  "absorb_and_move env ds rng' ts =
     (let fp = fpu_of env;
          sigma_a = op_a (cur_cell ts);
          f = fleck (cur_cell ts);
          p = phtn ts;
          absorbed_E = fp_mul fp (ph_E p)
             (fp_sub fp (fp_lit fp 1)
                (fp_exp fp (fp_mul fp (fp_mul fp (fp_neg fp sigma_a) f) (dist_to_event ds))));
          p1 = p\<lparr>ph_E := fp_sub fp (ph_E p) absorbed_E\<rparr>
      in if cell_id ts < length (rank_abs_E ts)
         then Some (ts\<lparr>rng := rng',
                       surface_cross := face_hit ds,
                       rank_abs_E := (rank_abs_E ts)
                          [cell_id ts := fp_add fp (rank_abs_E ts ! cell_id ts) absorbed_E],
                       phtn := move fp (dist_to_event ds) p1\<rparr>)
         else None)"

text \<open>Lines 86-91: the cutoff branch.\<close>

definition apply_cutoff :: "('f, 'r) tracker_env \<Rightarrow> ('f, 'r) tracker_state \<Rightarrow> ('f, 'r) tracker_state" where
  "apply_cutoff env ts =
     ts\<lparr>rank_abs_E := (rank_abs_E ts)
           [cell_id ts := fp_add (fpu_of env) (rank_abs_E ts ! cell_id ts) (ph_E (phtn ts))],
        phtn := set_dead (phtn ts),
        active := False,
        event := Some KILL\<rparr>"

text \<open>Lines 96-99: scatter.\<close>

definition apply_scatter :: "('f, 'r) tracker_env \<Rightarrow> ('f, 'r) tracker_state \<Rightarrow> ('f, 'r) tracker_state" where
  "apply_scatter env ts =
     (let (angle, rng') = get_uniform_angle env (rng ts)
      in ts\<lparr>rng := rng', phtn := (phtn ts)\<lparr>ph_angle := angle\<rparr>\<rparr>)"

text \<open>Lines 101-122: boundary crossing, by the boundary condition of the face.\<close>

definition apply_boundary :: "('f, 'r) tracker_env \<Rightarrow> ('f, 'r) tracker_state \<Rightarrow> ('f, 'r) tracker_state" where
  "apply_boundary env ts =
     (let boundary_event = bc (cur_cell ts) (surface_cross ts)
      in if boundary_event = ELEMENT then
           (let nc = next_cell (cur_cell ts) (surface_cross ts)
            in ts\<lparr>phtn := (phtn ts)\<lparr>ph_cell := nc\<rparr>,
                  cell_id := nc,
                  cur_cell := get_on_rank_cell env nc\<rparr>)
         else if boundary_event = PROCESSOR then
           (let nc = next_cell (cur_cell ts) (surface_cross ts)
            in ts\<lparr>active := False,
                  phtn := (phtn ts)\<lparr>ph_cell := nc\<rparr>,
                  event := Some PASS\<rparr>)
         else if boundary_event = VACUUM then
           ts\<lparr>exit_E := fp_add (fpu_of env) (exit_E ts) (ph_E (phtn ts)),
              active := False,
              event := Some EXIT\<rparr>
         else ts\<lparr>phtn := reflect (mirror_of env) (surface_cross ts) (phtn ts)\<rparr>)"

text \<open>Lines 124-130: census.\<close>

definition apply_census :: "('f, 'r) tracker_env \<Rightarrow> ('f, 'r) tracker_state \<Rightarrow> ('f, 'r) tracker_state" where
  "apply_census env ts =
     (let p = (phtn ts)\<lparr>ph_census_flag := True,
                        ph_distance_remaining :=
                          fp_mul (fpu_of env) (speed_of_light env) (next_dt ts)\<rparr>
      in ts\<lparr>phtn := p,
            active := False,
            event := Some CENSUS,
            census_E := fp_add (fpu_of env) (census_E ts) (ph_E p)\<rparr>)"

text \<open>
  Lines 62-131: one pass through the body of \<^verbatim>\<open>while(active)\<close>. The last \<^verbatim>\<open>else if\<close> has
  no \<^verbatim>\<open>else\<close>: when no comparison succeeds the segment applies no event.
\<close>

definition track_segment ::
  "('f, 'r) tracker_env \<Rightarrow> ('f, 'r) tracker_state \<Rightarrow> ('f, 'r) tracker_state option" where
  "track_segment env ts =
     (let (ds, rng') = segment_distances env ts
      in case absorb_and_move env ds rng' ts of
           None \<Rightarrow> None
         | Some ts1 \<Rightarrow>
             Some (if below_cutoff (fpu_of env) (phtn ts1) (cutoff_fraction (fpu_of env))
                   then apply_cutoff env ts1
                   else if fp_eq (fpu_of env) (dist_to_event ds) (dist_to_scatter ds)
                   then apply_scatter env ts1
                   else if fp_eq (fpu_of env) (dist_to_event ds) (dist_to_boundary ds)
                   then apply_boundary env ts1
                   else if fp_eq (fpu_of env) (dist_to_event ds) (dist_to_census ds)
                   then apply_census env ts1
                   else ts1))"

text \<open>
  The outcome of running a loop of the source: it ran out of the iterations granted
  (\<open>OutOfFuel\<close>, the model of a loop that does not end), it hit undefined behaviour, or it
  returned.
\<close>

datatype 'a run = OutOfFuel | Undefined | Returns 'a

fun tracker_loop ::
  "nat \<Rightarrow> ('f, 'r) tracker_env \<Rightarrow> ('f, 'r) tracker_state \<Rightarrow> ('f, 'r) tracker_state run" where
  "tracker_loop fuel env ts =
     (if active ts then
        (case fuel of
           0 \<Rightarrow> OutOfFuel
         | Suc fuel' \<Rightarrow>
             (case track_segment env ts of
                None \<Rightarrow> Undefined
              | Some ts' \<Rightarrow> tracker_loop fuel' env ts'))
      else Returns ts)"

text \<open>
  What a call hands back: the returned event and the final values of the reference
  parameters.
\<close>

record ('f, 'r) tracker_result =
  res_event :: event_type
  res_phtn :: "'f photon"
  res_rng :: 'r
  res_next_dt :: 'f
  res_exit_E :: 'f
  res_census_E :: 'f
  res_rank_abs_E :: "'f list"

definition tracker_entry ::
  "('f, 'r) tracker_env \<Rightarrow> 'f photon \<Rightarrow> 'r \<Rightarrow> 'f \<Rightarrow> 'f \<Rightarrow> 'f \<Rightarrow> 'f list \<Rightarrow> ('f, 'r) tracker_state" where
  "tracker_entry env p g ndt ex ce abs_E =
     \<lparr>rng = g, next_dt = ndt, exit_E = ex, census_E = ce, rank_abs_E = abs_E,
      phtn = p, cell_id = ph_cell p, cur_cell = get_on_rank_cell env (ph_cell p),
      surface_cross = 0, active = True, event = None\<rparr>"

text \<open>
  Lines 28-134. Returning \<^verbatim>\<open>event\<close> while it has no value would be a read of an
  uninitialised variable: \<open>Undefined\<close>.
\<close>

definition transport_photon_particle_pass ::
  "nat \<Rightarrow> ('f, 'r) tracker_env \<Rightarrow> 'f photon \<Rightarrow> 'r \<Rightarrow> 'f \<Rightarrow> 'f \<Rightarrow> 'f \<Rightarrow> 'f list
     \<Rightarrow> ('f, 'r) tracker_result run" where
  "transport_photon_particle_pass fuel env p g ndt ex ce abs_E =
     (case tracker_loop fuel env (tracker_entry env p g ndt ex ce abs_E) of
        OutOfFuel \<Rightarrow> OutOfFuel
      | Undefined \<Rightarrow> Undefined
      | Returns ts \<Rightarrow>
          (case event ts of
             None \<Rightarrow> Undefined
           | Some ev \<Rightarrow>
               Returns \<lparr>res_event = ev, res_phtn = phtn ts, res_rng = rng ts,
                        res_next_dt = next_dt ts, res_exit_E = exit_E ts,
                        res_census_E = census_E ts, res_rank_abs_E = rank_abs_E ts\<rparr>))"


section \<open>Particle-passing transport: the driver\<close>

text \<open>
  \<^verbatim>\<open>transport_particle_pass\<close> runs on one rank. What the other ranks and the message
  library do is input: for every pass through the work loop, an \<open>mpi_iter\<close> tells the
  outcome of each \<^verbatim>\<open>request.test()\<close> of that pass, with the payload that has arrived for a
  receive that completes. Every \<^verbatim>\<open>isend\<close>, \<^verbatim>\<open>irecv\<close> and barrier of the rank is appended to
  \<open>mpi_log\<close>. A blocking \<^verbatim>\<open>wait()\<close> is taken to return.

  \<^verbatim>\<open>uint32_t\<close> and \<^verbatim>\<open>uint64_t\<close> counters are machine words. Ranks are natural numbers and
  \<^verbatim>\<open>Constants::proc_null\<close> is \<open>None\<close>.
\<close>

type_synonym u32 = "32 word"
type_synonym u64 = "64 word"
type_synonym proc = "nat option"

subsection \<open>Sequencing of steps that may not return\<close>

definition and_then :: "'a run \<Rightarrow> ('a \<Rightarrow> 'b run) \<Rightarrow> 'b run" where
  "and_then r f = (case r of OutOfFuel \<Rightarrow> OutOfFuel | Undefined \<Rightarrow> Undefined | Returns x \<Rightarrow> f x)"

fun for_each :: "('a \<Rightarrow> 's \<Rightarrow> 's run) \<Rightarrow> 'a list \<Rightarrow> 's \<Rightarrow> 's run" where
  "for_each f [] s = Returns s"
| "for_each f (x # xs) s = and_then (f x s) (for_each f xs)"

subsection \<open>Buffers, requests and messages\<close>

datatype buffer_status = EMPTY | AWAITING | SENT | RECEIVED

record 'a buffer =
  object :: "'a list"
  status :: buffer_status

text \<open>
  Modelled from the spec: \<^verbatim>\<open>Buffer<T>\<close> (buffer.h is missing). "Holds one contiguous
  payload and the state flag. Operations: \<open>fill(payload)\<close> (pre: Empty; post: payload stored,
  flag unchanged); \<open>get_storage()\<close>; \<open>set_awaiting()\<close>, \<open>set_sent()\<close>, \<open>set_received()\<close>,
  \<open>reset()\<close> (clears payload, state \<rightarrow> Empty); predicates
  \<open>empty()/awaiting()/sent()/received()\<close>." The precondition of \<open>fill\<close> is not checked by
  \<open>fill\<close>: whether the callers respect it is a property of the driver.
\<close>

definition new_buffer :: "'a buffer" where
  "new_buffer = \<lparr>object = [], status = EMPTY\<rparr>"

definition fill :: "'a list \<Rightarrow> 'a buffer \<Rightarrow> 'a buffer" where
  "fill payload b = b\<lparr>object := payload\<rparr>"

definition get_buffer :: "'a buffer \<Rightarrow> 'a list" where
  "get_buffer b = object b"

definition set_awaiting :: "'a buffer \<Rightarrow> 'a buffer" where
  "set_awaiting b = b\<lparr>status := AWAITING\<rparr>"

definition set_sent :: "'a buffer \<Rightarrow> 'a buffer" where
  "set_sent b = b\<lparr>status := SENT\<rparr>"

definition set_received :: "'a buffer \<Rightarrow> 'a buffer" where
  "set_received b = b\<lparr>status := RECEIVED\<rparr>"

definition reset :: "'a buffer \<Rightarrow> 'a buffer" where
  "reset b = b\<lparr>object := [], status := EMPTY\<rparr>"

definition empty :: "'a buffer \<Rightarrow> bool" where
  "empty b \<longleftrightarrow> status b = EMPTY"

definition awaiting :: "'a buffer \<Rightarrow> bool" where
  "awaiting b \<longleftrightarrow> status b = AWAITING"

definition sent :: "'a buffer \<Rightarrow> bool" where
  "sent b \<longleftrightarrow> status b = SENT"

definition received :: "'a buffer \<Rightarrow> bool" where
  "received b \<longleftrightarrow> status b = RECEIVED"

text \<open>
  An \<^verbatim>\<open>mpi::request\<close> variable: default-constructed, holding an operation that is still
  in flight, or holding one that \<^verbatim>\<open>test()\<close> or \<^verbatim>\<open>wait()\<close> has seen complete. Assigning the
  result of a new \<^verbatim>\<open>isend\<close> or \<^verbatim>\<open>irecv\<close> overwrites whatever the variable held.
\<close>

datatype request = Null | InFlight | Completed

datatype mpi_tag = photon_tag | count_tag

datatype 'f payload = Counts "u64 list" | Photons "'f photon list"

datatype 'f mpi_call = Isend proc mpi_tag "'f payload" | Irecv proc mpi_tag | Barrier

text \<open>
  The outcomes of the tests of one pass. A photon request is named by its buffer index.
  A receive that completes delivers its payload into the buffer.
\<close>

record 'f mpi_iter =
  phtn_send_test :: "nat \<Rightarrow> bool"
  phtn_recv_test :: "nat \<Rightarrow> 'f photon list option"
  c1_recv_test :: "u64 list option"
  c2_recv_test :: "u64 list option"
  p_recv_test :: "u64 list option"
  p_send_test :: bool

subsection \<open>The adjacency map\<close>

text \<open>
  \<^verbatim>\<open>std::map<uint32_t, uint32_t>\<close>: the entries in increasing key order. \<^verbatim>\<open>operator[]\<close>
  returns the value of a key that is present and otherwise inserts the key with value 0.
\<close>

fun map_subscript :: "(nat \<times> nat) list \<Rightarrow> nat \<Rightarrow> nat \<times> (nat \<times> nat) list" where
  "map_subscript [] k = (0, [(k, 0)])"
| "map_subscript ((k', v) # m) k =
     (if k = k' then (v, (k', v) # m)
      else if k < k' then (0, (k, 0) # (k', v) # m)
      else (case map_subscript m k of (r, m') \<Rightarrow> (r, (k', v) # m')))"

subsection \<open>Collaborators and state of the driver\<close>

text \<open>
  \<open>get_photon\<close> is \<^verbatim>\<open>Source::get_photon(rng, dt)\<close>, \<open>get_n_photon\<close> is
  \<^verbatim>\<open>Source::get_n_photon\<close>, \<open>get_rank\<close> and \<open>get_proc_adjacency_list\<close> are the \<^verbatim>\<open>Mesh\<close> members,
  \<open>allreduce_sum\<close> is the result of the \<^verbatim>\<open>Allreduce\<close> of line 180, \<open>tracker_fuel\<close> bounds the
  segments of one tracker call.
\<close>

record ('f, 'r, 's) driver_env =
  tracker_env_of :: "('f, 'r) tracker_env"
  tracker_fuel :: nat
  get_photon :: "'s \<Rightarrow> 'r \<Rightarrow> 'f \<Rightarrow> 'f photon \<times> 's \<times> 'r"
  get_n_photon :: "'s \<Rightarrow> u64"
  get_rank :: "nat \<Rightarrow> nat"
  get_proc_adjacency_list :: "(nat \<times> nat) list"
  world_rank :: nat
  world_size :: nat
  allreduce_sum :: u64
  get_batch_size :: u32
  get_particle_message_size :: u32
  get_next_dt :: 'f

text \<open>The local variables of \<^verbatim>\<open>transport_particle_pass\<close>, by their names.\<close>

record ('f, 'r, 's) driver_state = "('f, 'r) tally" +
  source :: 's
  dt :: 'f
  n_photon_messages :: u32
  n_photons_sent :: u32
  n_sends_posted :: u32
  n_sends_completed :: u32
  n_receives_posted :: u32
  n_receives_completed :: u32
  n_local :: u64
  n_global :: u64
  parent :: proc
  child1 :: proc
  child2 :: proc
  send_list :: "'f photon list list"
  c1_recv_request :: request
  c2_recv_request :: request
  p_recv_request :: request
  c1_send_request :: request
  c2_send_request :: request
  p_send_request :: request
  c1_recv_buffer :: "u64 buffer"
  c2_recv_buffer :: "u64 buffer"
  p_recv_buffer :: "u64 buffer"
  c1_send_buffer :: "u64 buffer"
  c2_send_buffer :: "u64 buffer"
  p_send_buffer :: "u64 buffer"
  adjacent_procs :: "(nat \<times> nat) list"
  n_adjacent :: nat
  phtn_recv_request :: "request list"
  phtn_send_request :: "request list"
  phtn_recv_buffer :: "'f photon buffer list"
  phtn_send_buffer :: "'f photon buffer list"
  census_list :: "'f photon list"
  phtn_recv_stack :: "'f photon list"
  tree_count :: u64
  parent_count :: u64
  c1_count :: u64
  c2_count :: u64
  n_complete :: u64
  n_local_sourced :: u64
  finished :: bool
  batch_size :: u32
  max_buffer_size :: u32
  mpi_log :: "'f mpi_call list"

subsection \<open>Set-up (lines 159-298)\<close>

text \<open>
  Lines 186-205. In the source \<^verbatim>\<open>parent\<close> is the \<^verbatim>\<open>int\<close> \<open>(rank + 1) / 2 - 1\<close>, replaced
  by \<^verbatim>\<open>proc_null\<close> on rank 0, and \<^verbatim>\<open>last_node\<close> is \<open>n_rank - 1\<close>.
\<close>

definition tree_nodes :: "nat \<Rightarrow> nat \<Rightarrow> proc \<times> proc \<times> proc" where
  "tree_nodes rank n_rank =
     (let parent = (if rank = 0 then None else Some ((rank + 1) div 2 - 1));
          child1 = rank * 2 + 1;
          child2 = child1 + 1;
          last_node = int n_rank - 1
      in if int child1 > last_node then (parent, None, None)
         else if int child1 = last_node then (parent, Some child1, None)
         else (parent, Some child1, Some child2))"

definition initial_state ::
  "('f, 'r, 's) driver_env \<Rightarrow> 's \<Rightarrow> 'f list \<Rightarrow> 'r \<Rightarrow> ('f, 'r, 's) driver_state" where
  "initial_state env src abs_E g =
     (case tree_nodes (world_rank env) (world_size env) of
        (p, c1, c2) \<Rightarrow>
          \<lparr>rng = g, next_dt = get_next_dt env, exit_E = fp_lit (fpu_of (tracker_env_of env)) 0,
           census_E = fp_lit (fpu_of (tracker_env_of env)) 0,
           rank_abs_E = abs_E,
           source = src, dt = get_next_dt env,
           n_photon_messages = 0, n_photons_sent = 0, n_sends_posted = 0,
           n_sends_completed = 0, n_receives_posted = 0, n_receives_completed = 0,
           n_local = get_n_photon env src, n_global = allreduce_sum env,
           parent = p, child1 = c1, child2 = c2,
           send_list = [],
           c1_recv_request = Null, c2_recv_request = Null, p_recv_request = Null,
           c1_send_request = Null, c2_send_request = Null, p_send_request = Null,
           c1_recv_buffer = new_buffer, c2_recv_buffer = new_buffer,
           p_recv_buffer = new_buffer, c1_send_buffer = new_buffer,
           c2_send_buffer = new_buffer, p_send_buffer = new_buffer,
           adjacent_procs = get_proc_adjacency_list env,
           n_adjacent = length (get_proc_adjacency_list env),
           phtn_recv_request = replicate (length (get_proc_adjacency_list env)) Null,
           phtn_send_request = replicate (length (get_proc_adjacency_list env)) Null,
           phtn_recv_buffer = replicate (length (get_proc_adjacency_list env)) new_buffer,
           phtn_send_buffer = replicate (length (get_proc_adjacency_list env)) new_buffer,
           census_list = [], phtn_recv_stack = [],
           tree_count = 0, parent_count = 0, c1_count = 0, c2_count = 0,
           n_complete = 0, n_local_sourced = 0, finished = False,
           batch_size = get_batch_size env,
           max_buffer_size = get_particle_message_size env,
           mpi_log = []\<rparr>)"

text \<open>Lines 241-255: receives for the counts of the children and of the parent.\<close>

definition post_c1_recv :: "('f, 'r, 's) driver_state \<Rightarrow> ('f, 'r, 's) driver_state" where
  "post_c1_recv s =
     (if child1 s \<noteq> None
      then s\<lparr>c1_recv_request := InFlight,
             mpi_log := mpi_log s @ [Irecv (child1 s) count_tag],
             n_receives_posted := n_receives_posted s + 1,
             c1_recv_buffer := set_awaiting (c1_recv_buffer s)\<rparr>
      else s)"

definition post_c2_recv :: "('f, 'r, 's) driver_state \<Rightarrow> ('f, 'r, 's) driver_state" where
  "post_c2_recv s =
     (if child2 s \<noteq> None
      then s\<lparr>c2_recv_request := InFlight,
             mpi_log := mpi_log s @ [Irecv (child2 s) count_tag],
             n_receives_posted := n_receives_posted s + 1,
             c2_recv_buffer := set_awaiting (c2_recv_buffer s)\<rparr>
      else s)"

definition post_p_recv :: "('f, 'r, 's) driver_state \<Rightarrow> ('f, 'r, 's) driver_state" where
  "post_p_recv s =
     (if parent s \<noteq> None
      then s\<lparr>p_recv_request := InFlight,
             mpi_log := mpi_log s @ [Irecv (parent s) count_tag],
             n_receives_posted := n_receives_posted s + 1,
             p_recv_buffer := set_awaiting (p_recv_buffer s)\<rparr>
      else s)"

text \<open>
  Lines 261-272, for one entry of the adjacency map. The request array and the buffer
  vector have \<^verbatim>\<open>n_adjacent\<close> elements; an index outside them is undefined behaviour.
\<close>

definition post_photon_recv ::
  "nat \<times> nat \<Rightarrow> ('f, 'r, 's) driver_state \<Rightarrow> ('f, 'r, 's) driver_state run" where
  "post_photon_recv entry s =
     (case entry of
        (adj_rank, i_b) \<Rightarrow>
          if i_b < length (phtn_recv_request s) \<and> i_b < length (phtn_recv_buffer s)
          then Returns
            (s\<lparr>send_list := send_list s @ [[]],
               phtn_recv_request := (phtn_recv_request s)[i_b := InFlight],
               mpi_log := mpi_log s @ [Irecv (Some adj_rank) photon_tag],
               n_receives_posted := n_receives_posted s + 1,
               phtn_recv_buffer :=
                 (phtn_recv_buffer s)[i_b := set_awaiting (phtn_recv_buffer s ! i_b)]\<rparr>)
          else Undefined)"

definition driver_setup ::
  "('f, 'r, 's) driver_env \<Rightarrow> 's \<Rightarrow> 'f list \<Rightarrow> 'r \<Rightarrow> ('f, 'r, 's) driver_state run" where
  "driver_setup env src abs_E g =
     (let s = post_p_recv (post_c2_recv (post_c1_recv (initial_state env src abs_E g)))
      in for_each post_photon_recv (adjacent_procs s) s)"

subsection \<open>Tracking a batch (lines 302-344)\<close>

text \<open>
  Lines 310-318: the photon of a slot, whether it came from the receive stack, and the
  state after drawing it. A photon from the stack stays on the stack until line 343.
\<close>

definition next_particle ::
  "('f, 'r, 's) driver_env \<Rightarrow> ('f, 'r, 's) driver_state
     \<Rightarrow> 'f photon \<times> bool \<times> ('f, 'r, 's) driver_state" where
  "next_particle env s =
     (if phtn_recv_stack s \<noteq> [] then (hd (phtn_recv_stack s), True, s)
      else (case get_photon env (source s) (rng s) (dt s) of
              (p, src', g') \<Rightarrow>
                (p, False, s\<lparr>source := src', rng := g',
                             n_local_sourced := n_local_sourced s + 1\<rparr>)))"

text \<open>
  Lines 322-341: the switch over the event. \<^verbatim>\<open>send_list[i_b]\<close> is an unchecked vector
  access: outside the vector the behaviour is undefined, \<open>None\<close>.
\<close>

definition apply_event ::
  "('f, 'r, 's) driver_env \<Rightarrow> event_type \<Rightarrow> 'f photon \<Rightarrow> ('f, 'r, 's) driver_state
     \<Rightarrow> ('f, 'r, 's) driver_state option" where
  "apply_event env ev p s =
     (case ev of
        WAIT \<Rightarrow> Some s
      | KILL \<Rightarrow> Some (s\<lparr>n_complete := n_complete s + 1\<rparr>)
      | EXIT \<Rightarrow> Some (s\<lparr>n_complete := n_complete s + 1\<rparr>)
      | CENSUS \<Rightarrow> Some (s\<lparr>census_list := census_list s @ [p],
                             n_complete := n_complete s + 1\<rparr>)
      | PASS \<Rightarrow>
          (let send_rank = get_rank env (ph_cell p)
           in case map_subscript (adjacent_procs s) send_rank of
                (i_b, m') \<Rightarrow>
                  if i_b < length (send_list s)
                  then Some (s\<lparr>adjacent_procs := m',
                                send_list := (send_list s)[i_b := send_list s ! i_b @ [p]]\<rparr>)
                  else None))"

text \<open>Lines 310-343 without the decrement of \<^verbatim>\<open>n\<close>: one slot of the batch.\<close>

definition track_slot ::
  "('f, 'r, 's) driver_env \<Rightarrow> ('f, 'r, 's) driver_state
     \<Rightarrow> ('f, 'r, 's) driver_state run" where
  "track_slot env s =
     (case next_particle env s of
        (p, from_receive_stack, s1) \<Rightarrow>
          and_then
            (transport_photon_particle_pass (tracker_fuel env) (tracker_env_of env) p
               (rng s1) (next_dt s1) (exit_E s1) (census_E s1) (rank_abs_E s1))
            (\<lambda>r. let s2 = s1\<lparr>rng := res_rng r, next_dt := res_next_dt r,
                              exit_E := res_exit_E r, census_E := res_census_E r,
                              rank_abs_E := res_rank_abs_E r\<rparr>
                 in case apply_event env (res_event r) (res_phtn r) s2 of
                      None \<Rightarrow> Undefined
                    | Some s3 \<Rightarrow>
                        Returns (if from_receive_stack
                                 then s3\<lparr>phtn_recv_stack := tl (phtn_recv_stack s3)\<rparr>
                                 else s3)))"

text \<open>Line 308: \<^verbatim>\<open>while (n && (!phtn_recv_stack.empty() || (n_local_sourced < n_local)))\<close>.\<close>

fun track_batch ::
  "('f, 'r, 's) driver_env \<Rightarrow> nat \<Rightarrow> ('f, 'r, 's) driver_state
     \<Rightarrow> ('f, 'r, 's) driver_state run" where
  "track_batch env 0 s = Returns s"
| "track_batch env (Suc n) s =
     (if phtn_recv_stack s \<noteq> [] \<or> n_local_sourced s < n_local s
      then and_then (track_slot env s) (track_batch env n)
      else Returns s)"

subsection \<open>Photon messages (lines 349-399)\<close>

text \<open>Lines 357-362.\<close>

definition test_photon_send ::
  "'f mpi_iter \<Rightarrow> nat \<Rightarrow> ('f, 'r, 's) driver_state \<Rightarrow> ('f, 'r, 's) driver_state" where
  "test_photon_send io i_b s =
     (if sent (phtn_send_buffer s ! i_b) \<and> phtn_send_test io i_b
      then s\<lparr>phtn_send_request := (phtn_send_request s)[i_b := Completed],
             phtn_send_buffer := (phtn_send_buffer s)[i_b := reset (phtn_send_buffer s ! i_b)],
             n_sends_completed := n_sends_completed s + 1\<rparr>
      else s)"

text \<open>Line 364-365: the condition under which a photon send is posted.\<close>

definition send_is_due :: "nat \<Rightarrow> ('f, 'r, 's) driver_state \<Rightarrow> bool" where
  "send_is_due i_b s \<longleftrightarrow>
     (empty (phtn_send_buffer s ! i_b) \<and> send_list s ! i_b \<noteq> []) \<and>
     (length (send_list s ! i_b) \<ge> unat (max_buffer_size s) \<or> n_local_sourced s = n_local s)"

text \<open>Lines 366-379.\<close>

definition post_photon_send ::
  "nat \<Rightarrow> nat \<Rightarrow> ('f, 'r, 's) driver_state \<Rightarrow> ('f, 'r, 's) driver_state" where
  "post_photon_send adj_rank i_b s =
     (if send_is_due i_b s then
        (let n_photons_to_send =
               (if length (send_list s ! i_b) < unat (max_buffer_size s)
                then length (send_list s ! i_b) else unat (max_buffer_size s));
             send_now_list = take n_photons_to_send (send_list s ! i_b);
             filled = fill send_now_list (phtn_send_buffer s ! i_b)
         in s\<lparr>send_list := (send_list s)[i_b := drop n_photons_to_send (send_list s ! i_b)],
               n_photons_sent := n_photons_sent s + of_nat n_photons_to_send,
               phtn_send_request := (phtn_send_request s)[i_b := InFlight],
               mpi_log := mpi_log s
                  @ [Isend (Some adj_rank) photon_tag (Photons (get_buffer filled))],
               n_sends_posted := n_sends_posted s + 1,
               phtn_send_buffer := (phtn_send_buffer s)[i_b := set_sent filled],
               n_photon_messages := n_photon_messages s + 1\<rparr>)
      else s)"

text \<open>
  Lines 383-397. The photons of a completed receive are pushed in order, so that the last
  one is on top of the stack.
\<close>

definition test_photon_recv ::
  "'f mpi_iter \<Rightarrow> nat \<Rightarrow> nat \<Rightarrow> ('f, 'r, 's) driver_state \<Rightarrow> ('f, 'r, 's) driver_state" where
  "test_photon_recv io adj_rank i_b s =
     (if awaiting (phtn_recv_buffer s ! i_b) then
        (case phtn_recv_test io i_b of
           None \<Rightarrow> s
         | Some arrived \<Rightarrow>
             (let delivered = (phtn_recv_buffer s ! i_b)\<lparr>object := arrived\<rparr>;
                  receive_list = get_buffer delivered
              in s\<lparr>n_receives_completed := n_receives_completed s + 1,
                    phtn_recv_stack := rev receive_list @ phtn_recv_stack s,
                    phtn_recv_request := (phtn_recv_request s)[i_b := InFlight],
                    mpi_log := mpi_log s @ [Irecv (Some adj_rank) photon_tag],
                    n_receives_posted := n_receives_posted s + 1,
                    phtn_recv_buffer :=
                      (phtn_recv_buffer s)[i_b := set_awaiting (reset delivered)]\<rparr>))
      else s)"

text \<open>
  Lines 354-397 for one entry of the adjacency map. Every indexed access must be inside
  its array.
\<close>

definition index_ok :: "nat \<Rightarrow> ('f, 'r, 's) driver_state \<Rightarrow> bool" where
  "index_ok i_b s \<longleftrightarrow>
     i_b < length (send_list s) \<and>
     i_b < length (phtn_send_buffer s) \<and> i_b < length (phtn_send_request s) \<and>
     i_b < length (phtn_recv_buffer s) \<and> i_b < length (phtn_recv_request s)"

definition process_neighbor ::
  "'f mpi_iter \<Rightarrow> nat \<times> nat \<Rightarrow> ('f, 'r, 's) driver_state \<Rightarrow> ('f, 'r, 's) driver_state run" where
  "process_neighbor io entry s =
     (case entry of
        (adj_rank, i_b) \<Rightarrow>
          if index_ok i_b s
          then Returns (test_photon_recv io adj_rank i_b
                         (post_photon_send adj_rank i_b (test_photon_send io i_b s)))
          else Undefined)"

definition process_photon_messages ::
  "'f mpi_iter \<Rightarrow> ('f, 'r, 's) driver_state \<Rightarrow> ('f, 'r, 's) driver_state run" where
  "process_photon_messages io s = for_each (process_neighbor io) (adjacent_procs s) s"

subsection \<open>Completion tree (lines 410-474)\<close>

text \<open>
  Lines 410-423. \<^verbatim>\<open>get_buffer()[0]\<close> is an unchecked access to the first element of the
  payload.
\<close>

definition test_c1_recv ::
  "'f mpi_iter \<Rightarrow> ('f, 'r, 's) driver_state \<Rightarrow> ('f, 'r, 's) driver_state run" where
  "test_c1_recv io s =
     (if awaiting (c1_recv_buffer s) then
        (case c1_recv_test io of
           None \<Rightarrow> Returns s
         | Some arrived \<Rightarrow>
             (let delivered = set_received ((c1_recv_buffer s)\<lparr>object := arrived\<rparr>)
              in if get_buffer delivered = [] then Undefined
                 else Returns
                   (s\<lparr>n_receives_completed := n_receives_completed s + 1,
                      c1_count := hd (get_buffer delivered),
                      tree_count := tree_count s + hd (get_buffer delivered),
                      c1_recv_request := InFlight,
                      mpi_log := mpi_log s @ [Irecv (child1 s) count_tag],
                      n_receives_posted := n_receives_posted s + 1,
                      c1_recv_buffer := set_awaiting (reset delivered)\<rparr>)))
      else Returns s)"

text \<open>Lines 424-437.\<close>

definition test_c2_recv ::
  "'f mpi_iter \<Rightarrow> ('f, 'r, 's) driver_state \<Rightarrow> ('f, 'r, 's) driver_state run" where
  "test_c2_recv io s =
     (if awaiting (c2_recv_buffer s) then
        (case c2_recv_test io of
           None \<Rightarrow> Returns s
         | Some arrived \<Rightarrow>
             (let delivered = set_received ((c2_recv_buffer s)\<lparr>object := arrived\<rparr>)
              in if get_buffer delivered = [] then Undefined
                 else Returns
                   (s\<lparr>n_receives_completed := n_receives_completed s + 1,
                      c2_count := hd (get_buffer delivered),
                      tree_count := tree_count s + hd (get_buffer delivered),
                      c2_recv_request := InFlight,
                      mpi_log := mpi_log s @ [Irecv (child2 s) count_tag],
                      n_receives_posted := n_receives_posted s + 1,
                      c2_recv_buffer := set_awaiting (reset delivered)\<rparr>)))
      else Returns s)"

text \<open>Lines 440-446: the receive from the parent is not posted again.\<close>

definition test_p_recv ::
  "'f mpi_iter \<Rightarrow> ('f, 'r, 's) driver_state \<Rightarrow> ('f, 'r, 's) driver_state run" where
  "test_p_recv io s =
     (if awaiting (p_recv_buffer s) then
        (case p_recv_test io of
           None \<Rightarrow> Returns s
         | Some arrived \<Rightarrow>
             (let delivered = set_received ((p_recv_buffer s)\<lparr>object := arrived\<rparr>)
              in if get_buffer delivered = [] then Undefined
                 else Returns
                   (s\<lparr>n_receives_completed := n_receives_completed s + 1,
                      p_recv_request := Completed,
                      p_recv_buffer := delivered,
                      parent_count := hd (get_buffer delivered)\<rparr>)))
      else Returns s)"

text \<open>Lines 449-454.\<close>

definition test_p_send ::
  "'f mpi_iter \<Rightarrow> ('f, 'r, 's) driver_state \<Rightarrow> ('f, 'r, 's) driver_state" where
  "test_p_send io s =
     (if sent (p_send_buffer s) \<and> p_send_test io
      then s\<lparr>p_send_request := Completed,
             n_sends_completed := n_sends_completed s + 1,
             p_send_buffer := reset (p_send_buffer s)\<rparr>
      else s)"

text \<open>Lines 457-458.\<close>

definition roll_up :: "('f, 'r, 's) driver_state \<Rightarrow> ('f, 'r, 's) driver_state" where
  "roll_up s = s\<lparr>tree_count := tree_count s + n_complete s, n_complete := 0\<rparr>"

text \<open>Line 464: the condition of the send to the parent.\<close>

definition parent_send_is_due :: "('f, 'r, 's) driver_state \<Rightarrow> bool" where
  "parent_send_is_due s \<longleftrightarrow>
     (parent s \<noteq> None \<and> tree_count s \<noteq> 0) \<and>
     (n_local s = n_local_sourced s \<and> phtn_recv_stack s = [])"

text \<open>Lines 464-471.\<close>

definition send_to_parent :: "('f, 'r, 's) driver_state \<Rightarrow> ('f, 'r, 's) driver_state" where
  "send_to_parent s =
     (if parent_send_is_due s then
        (let filled = fill [tree_count s] (p_send_buffer s)
         in s\<lparr>p_send_request := InFlight,
               mpi_log := mpi_log s @ [Isend (parent s) count_tag (Counts (get_buffer filled))],
               n_sends_posted := n_sends_posted s + 1,
               p_send_buffer := set_sent filled,
               tree_count := 0\<rparr>)
      else s)"

text \<open>Line 474.\<close>

definition exit_test :: "('f, 'r, 's) driver_state \<Rightarrow> bool" where
  "exit_test s \<longleftrightarrow> tree_count s = n_global s \<or> parent_count s = n_global s"

definition set_finished :: "('f, 'r, 's) driver_state \<Rightarrow> ('f, 'r, 's) driver_state" where
  "set_finished s = (if exit_test s then s\<lparr>finished := True\<rparr> else s)"

subsection \<open>The work loop (lines 300-475)\<close>

text \<open>The state in which the body reaches line 464, and the body.\<close>

definition before_parent_send ::
  "('f, 'r, 's) driver_env \<Rightarrow> 'f mpi_iter \<Rightarrow> ('f, 'r, 's) driver_state
     \<Rightarrow> ('f, 'r, 's) driver_state run" where
  "before_parent_send env io s =
     and_then (track_batch env (unat (batch_size s)) s) (\<lambda>s1.
     and_then (process_photon_messages io s1) (\<lambda>s2.
     and_then (test_c1_recv io s2) (\<lambda>s3.
     and_then (test_c2_recv io s3) (\<lambda>s4.
     and_then (test_p_recv io s4) (\<lambda>s5.
     Returns (roll_up (test_p_send io s5)))))))"

definition work_iteration ::
  "('f, 'r, 's) driver_env \<Rightarrow> 'f mpi_iter \<Rightarrow> ('f, 'r, 's) driver_state
     \<Rightarrow> ('f, 'r, 's) driver_state run" where
  "work_iteration env io s =
     and_then (before_parent_send env io s) (\<lambda>s6. Returns (set_finished (send_to_parent s6)))"

text \<open>
  \<^verbatim>\<open>while (!finished)\<close>. Each pass consumes the test outcomes of that pass; when none are
  left the loop has not ended.
\<close>

fun work_loop ::
  "('f, 'r, 's) driver_env \<Rightarrow> 'f mpi_iter list \<Rightarrow> ('f, 'r, 's) driver_state
     \<Rightarrow> ('f, 'r, 's) driver_state run" where
  "work_loop env [] s = (if finished s then Returns s else OutOfFuel)"
| "work_loop env (io # ios) s =
     (if finished s then Returns s
      else and_then (work_iteration env io s) (work_loop env ios))"

subsection \<open>After the work loop (lines 478-556)\<close>

text \<open>Lines 478-488: the finished count goes down to the first child.\<close>

definition finish_c1_send :: "('f, 'r, 's) driver_state \<Rightarrow> ('f, 'r, 's) driver_state" where
  "finish_c1_send s =
     (if child1 s \<noteq> None then
        (let s1 = (if sent (c1_send_buffer s)
                   then s\<lparr>c1_send_request := Completed,
                          n_sends_completed := n_sends_completed s + 1\<rparr>
                   else s);
             filled = fill [n_global s1] (c1_send_buffer s1)
         in s1\<lparr>c1_send_buffer := filled,
                mpi_log := mpi_log s1 @ [Isend (child1 s1) count_tag (Counts (get_buffer filled))],
                n_sends_posted := n_sends_posted s1 + 1,
                c1_send_request := Completed,
                n_sends_completed := n_sends_completed s1 + 1\<rparr>)
      else s)"

text \<open>Lines 489-499.\<close>

definition finish_c2_send :: "('f, 'r, 's) driver_state \<Rightarrow> ('f, 'r, 's) driver_state" where
  "finish_c2_send s =
     (if child2 s \<noteq> None then
        (let s1 = (if sent (c2_send_buffer s)
                   then s\<lparr>c2_send_request := Completed,
                          n_sends_completed := n_sends_completed s + 1\<rparr>
                   else s);
             filled = fill [n_global s1] (c2_send_buffer s1)
         in s1\<lparr>c2_send_buffer := filled,
                mpi_log := mpi_log s1 @ [Isend (child2 s1) count_tag (Counts (get_buffer filled))],
                n_sends_posted := n_sends_posted s1 + 1,
                c2_send_request := Completed,
                n_sends_completed := n_sends_completed s1 + 1\<rparr>)
      else s)"

text \<open>Lines 502-505: the buffer keeps its flag.\<close>

definition wait_p_send :: "('f, 'r, 's) driver_state \<Rightarrow> ('f, 'r, 's) driver_state" where
  "wait_p_send s =
     (if sent (p_send_buffer s)
      then s\<lparr>p_send_request := Completed, n_sends_completed := n_sends_completed s + 1\<rparr>
      else s)"

text \<open>Lines 511 and 556.\<close>

definition barrier :: "('f, 'r, 's) driver_state \<Rightarrow> ('f, 'r, 's) driver_state" where
  "barrier s = s\<lparr>mpi_log := mpi_log s @ [Barrier]\<rparr>"

text \<open>Lines 514-520: the one-element send that ends the parent's receive.\<close>

definition final_p_send :: "('f, 'r, 's) driver_state \<Rightarrow> ('f, 'r, 's) driver_state" where
  "final_p_send s =
     (if parent s \<noteq> None then
        (let filled = fill [1] (p_send_buffer s)
         in s\<lparr>p_send_buffer := filled,
               mpi_log := mpi_log s @ [Isend (parent s) count_tag (Counts (get_buffer filled))],
               n_sends_posted := n_sends_posted s + 1,
               p_send_request := Completed,
               n_sends_completed := n_sends_completed s + 1\<rparr>)
      else s)"

text \<open>Lines 521-528.\<close>

definition wait_child_recvs :: "('f, 'r, 's) driver_state \<Rightarrow> ('f, 'r, 's) driver_state" where
  "wait_child_recvs s =
     (let s1 = (if child1 s \<noteq> None
                then s\<lparr>c1_recv_request := Completed,
                       n_receives_completed := n_receives_completed s + 1\<rparr>
                else s)
      in if child2 s1 \<noteq> None
         then s1\<lparr>c2_recv_request := Completed,
                 n_receives_completed := n_receives_completed s1 + 1\<rparr>
         else s1)"

text \<open>
  Lines 538-546 for one entry of the adjacency map: wait for a send that is still flagged
  as sent, then send the empty message and wait for it.
\<close>

definition finish_neighbor ::
  "nat \<times> nat \<Rightarrow> ('f, 'r, 's) driver_state \<Rightarrow> ('f, 'r, 's) driver_state run" where
  "finish_neighbor entry s =
     (case entry of
        (adj_rank, i_b) \<Rightarrow>
          if i_b < length (phtn_send_buffer s) \<and> i_b < length (phtn_send_request s)
          then
            (let s1 = (if sent (phtn_send_buffer s ! i_b)
                       then s\<lparr>phtn_send_request := (phtn_send_request s)[i_b := Completed]\<rparr>
                       else s)
             in Returns
               (s1\<lparr>mpi_log := mpi_log s1 @ [Isend (Some adj_rank) photon_tag (Photons [])],
                   n_sends_posted := n_sends_posted s1 + 1,
                   phtn_send_request := (phtn_send_request s1)[i_b := Completed],
                   n_sends_completed := n_sends_completed s1 + 1\<rparr>))
          else Undefined)"

text \<open>Lines 551-554 for one index.\<close>

definition wait_photon_recv ::
  "nat \<Rightarrow> ('f, 'r, 's) driver_state \<Rightarrow> ('f, 'r, 's) driver_state run" where
  "wait_photon_recv i_b s =
     (if i_b < length (phtn_recv_request s)
      then Returns (s\<lparr>phtn_recv_request := (phtn_recv_request s)[i_b := Completed],
                      n_receives_completed := n_receives_completed s + 1\<rparr>)
      else Undefined)"

text \<open>
  Lines 478-556, up to the second barrier. What follows sorts the census list and
  publishes \<^verbatim>\<open>exit_E\<close>, \<^verbatim>\<open>census_E\<close>, the size of the census list and the six counters as
  they are at this point.
\<close>

definition finish_step :: "('f, 'r, 's) driver_state \<Rightarrow> ('f, 'r, 's) driver_state run" where
  "finish_step s =
     (let s1 = wait_child_recvs (final_p_send (barrier
                 (wait_p_send (finish_c2_send (finish_c1_send s)))))
      in and_then (for_each finish_neighbor (adjacent_procs s1) s1) (\<lambda>s2.
         and_then (for_each wait_photon_recv [0 ..< n_adjacent s2] s2) (\<lambda>s3.
         Returns (barrier s3))))"

subsection \<open>The transport step (lines 138-576)\<close>

definition transport_particle_pass ::
  "('f, 'r, 's) driver_env \<Rightarrow> 'f mpi_iter list \<Rightarrow> 's \<Rightarrow> 'f list \<Rightarrow> 'r
     \<Rightarrow> ('f, 'r, 's) driver_state run" where
  "transport_particle_pass env ios src abs_E g =
     and_then (driver_setup env src abs_E g) (\<lambda>s0.
     and_then (work_loop env ios s0) finish_step)"

section \<open>Invariants and concrete inputs\<close>

subsection \<open>Invariants of the tracker loop\<close>

text \<open>Once the loop flag is cleared, \<^verbatim>\<open>event\<close> holds one of the four terminal events.\<close>

definition terminal_ok :: "('f, 'r) tracker_state \<Rightarrow> bool" where
  "terminal_ok ts \<longleftrightarrow>
     (\<not> active ts \<longrightarrow> event ts \<in> {Some KILL, Some EXIT, Some CENSUS, Some PASS})"

text \<open>
  The accumulators relative to their values \<open>ndt\<close>, \<open>ex\<close>, \<open>ce\<close> at entry: untouched while
  the photon is in flight, and afterwards changed only by the terminal event.
\<close>

definition frame_ok :: "('f, 'r) tracker_env \<Rightarrow> 'f \<Rightarrow> 'f \<Rightarrow> 'f \<Rightarrow> ('f, 'r) tracker_state \<Rightarrow> bool" where
  "frame_ok env ndt ex ce ts \<longleftrightarrow>
     next_dt ts = ndt \<and>
     exit_E ts = (if \<not> active ts \<and> event ts = Some EXIT
                  then fp_add (fpu_of env) ex (ph_E (phtn ts)) else ex) \<and>
     census_E ts = (if \<not> active ts \<and> event ts = Some CENSUS
                    then fp_add (fpu_of env) ce (ph_E (phtn ts)) else ce)"

subsection \<open>A one-cell slab over the reals\<close>

text \<open>
  These inputs interpret \<^verbatim>\<open>double\<close> as \<open>real\<close> with exact arithmetic; their runs only
  meet positive divisors and positive arguments of the logarithm. The slab has one
  cell with Fleck factor 1; every face has the same boundary condition and lies at the
  same distance; the generator always draws the same number.
\<close>

definition fp_real :: "real fpu" where
  "fp_real = \<lparr>fp_lit = of_rat, fp_add = (+), fp_sub = (-), fp_mul = (*), fp_div = (/),
              fp_neg = uminus, fp_exp = exp, fp_log = ln, fp_lt = (<), fp_eq = (=)\<rparr>"

definition slab_cell :: "real \<Rightarrow> real \<Rightarrow> bc_type \<Rightarrow> real cell" where
  "slab_cell sa ss b =
     \<lparr>op_a = sa, op_s = ss, fleck = 1, bc = (\<lambda>face. b), next_cell = (\<lambda>face. 7)\<rparr>"

definition slab_env :: "real cell \<Rightarrow> real \<Rightarrow> real \<Rightarrow> (real, nat) tracker_env" where
  "slab_env c u db =
     \<lparr>fpu_of = fp_real,
      get_on_rank_cell = (\<lambda>i. c),
      get_distance_to_boundary = (\<lambda>c pos ang face. (db, 1)),
      mirror_of = (\<lambda>face (ax, ay, az). (- ax, ay, az)),
      generate_random_number = (\<lambda>g. (u, Suc g)),
      get_uniform_angle = (\<lambda>g. ((0, 1, 0), Suc g)),
      speed_of_light = 300\<rparr>"

definition fresh_photon :: "real \<Rightarrow> real photon" where
  "fresh_photon dc =
     \<lparr>ph_cell = 0, ph_pos = (0, 0, 0), ph_angle = (1, 0, 0), ph_E = 1, ph_E0 = 1,
      ph_distance_remaining = dc, ph_census_flag = False, ph_alive = True\<rparr>"

text \<open>A transparent cell with vacuum faces at distance \<open>1/2\<close>; scattering would be at \<open>2\<close>.\<close>

definition vacuum_env :: "(real, nat) tracker_env" where
  "vacuum_env = slab_env (slab_cell 0 1 VACUUM) (exp (- 2)) (1 / 2)"

definition exit_result :: "(real, nat) tracker_result" where
  "exit_result =
     \<lparr>res_event = EXIT,
      res_phtn = (fresh_photon 10)\<lparr>ph_pos := (1 / 2, 0, 0), ph_distance_remaining := 19 / 2\<rparr>,
      res_rng = 1, res_next_dt = 1 / 100, res_exit_E = 1, res_census_E = 0,
      res_rank_abs_E = [0]\<rparr>"

definition census_result :: "(real, nat) tracker_result" where
  "census_result =
     \<lparr>res_event = CENSUS,
      res_phtn = (fresh_photon 3)\<lparr>ph_pos := (1 / 4, 0, 0), ph_census_flag := True\<rparr>,
      res_rng = 1, res_next_dt = 1 / 100, res_exit_E = 0, res_census_E = 1,
      res_rank_abs_E = [0]\<rparr>"

text \<open>Boundary and census at the same distance \<open>1/2\<close>.\<close>

definition tie_entry :: "(real, nat) tracker_state" where
  "tie_entry = tracker_entry vacuum_env (fresh_photon (1 / 2)) 0 (1 / 100) 0 0 [0]"

definition tie_distances :: "real distances" where
  "tie_distances =
     \<lparr>dist_to_scatter = 2, dist_to_boundary = 1 / 2, dist_to_census = 1 / 2,
      dist_to_event = 1 / 2, face_hit = 1\<rparr>"

definition tie_moved :: "(real, nat) tracker_state" where
  "tie_moved =
     tie_entry\<lparr>rng := 1, surface_cross := 1, rank_abs_E := [0],
               phtn := (fresh_photon 0)\<lparr>ph_pos := (1 / 2, 0, 0)\<rparr>\<rparr>"

text \<open>
  An absorbing cell: the photon reaches census after \<open>ln 200\<close>, where \<open>1/200\<close> of its
  energy is left.
\<close>

definition absorber_env :: "(real, nat) tracker_env" where
  "absorber_env = slab_env (slab_cell 1 1 VACUUM) (1 / 800) (ln 400)"

definition absorber_entry :: "(real, nat) tracker_state" where
  "absorber_entry = tracker_entry absorber_env (fresh_photon (ln 200)) 0 (1 / 100) 0 0 [0]"

definition absorber_distances :: "real distances" where
  "absorber_distances =
     \<lparr>dist_to_scatter = ln 800, dist_to_boundary = ln 400, dist_to_census = ln 200,
      dist_to_event = ln 200, face_hit = 1\<rparr>"

definition absorber_moved :: "(real, nat) tracker_state" where
  "absorber_moved =
     absorber_entry\<lparr>rng := 1, surface_cross := 1, rank_abs_E := [199 / 200],
                    phtn := (fresh_photon 0)\<lparr>ph_pos := (ln 200, 0, 0), ph_E := 1 / 200\<rparr>\<rparr>"

subsection \<open>Doubles with infinities and NaN\<close>

text \<open>
  An interpretation of \<^verbatim>\<open>double\<close> that has the special values of IEEE 754: NaN, the two
  infinities, and the reals for the finite numbers. Rounding and the sign of zero are left
  out (a zero divisor counts as \<open>+0\<close>). Every comparison with NaN is false; an operation
  with a NaN operand gives NaN, and so do \<open>0/0\<close>, \<open>\<infinity>/\<infinity>\<close>, \<open>0 \<cdot> \<infinity>\<close>, \<open>\<infinity> - \<infinity>\<close> and the
  logarithm of a negative number.
\<close>

datatype xreal = NaN | MInf | Num real | PInf

fun x_lt :: "xreal \<Rightarrow> xreal \<Rightarrow> bool" where
  "x_lt (Num a) (Num b) \<longleftrightarrow> a < b"
| "x_lt NaN b \<longleftrightarrow> False"
| "x_lt a NaN \<longleftrightarrow> False"
| "x_lt a MInf \<longleftrightarrow> False"
| "x_lt MInf b \<longleftrightarrow> True"
| "x_lt PInf b \<longleftrightarrow> False"
| "x_lt a PInf \<longleftrightarrow> True"

fun x_eq :: "xreal \<Rightarrow> xreal \<Rightarrow> bool" where
  "x_eq (Num a) (Num b) \<longleftrightarrow> a = b"
| "x_eq MInf MInf \<longleftrightarrow> True"
| "x_eq PInf PInf \<longleftrightarrow> True"
| "x_eq a b \<longleftrightarrow> False"

fun x_neg :: "xreal \<Rightarrow> xreal" where
  "x_neg (Num a) = Num (- a)"
| "x_neg MInf = PInf"
| "x_neg PInf = MInf"
| "x_neg NaN = NaN"

fun x_add :: "xreal \<Rightarrow> xreal \<Rightarrow> xreal" where
  "x_add (Num a) (Num b) = Num (a + b)"
| "x_add NaN b = NaN"
| "x_add a NaN = NaN"
| "x_add PInf MInf = NaN"
| "x_add MInf PInf = NaN"
| "x_add PInf b = PInf"
| "x_add MInf b = MInf"
| "x_add a b = b"

definition x_sub :: "xreal \<Rightarrow> xreal \<Rightarrow> xreal" where
  "x_sub a b = x_add a (x_neg b)"

fun x_mul :: "xreal \<Rightarrow> xreal \<Rightarrow> xreal" where
  "x_mul (Num a) (Num b) = Num (a * b)"
| "x_mul NaN b = NaN"
| "x_mul a NaN = NaN"
| "x_mul a b =
     (if a = Num 0 \<or> b = Num 0 then NaN
      else if x_lt a (Num 0) = x_lt b (Num 0) then PInf else MInf)"

fun x_div :: "xreal \<Rightarrow> xreal \<Rightarrow> xreal" where
  "x_div (Num a) (Num b) =
     (if b \<noteq> 0 then Num (a / b)
      else if a = 0 then NaN else if 0 < a then PInf else MInf)"
| "x_div NaN b = NaN"
| "x_div a NaN = NaN"
| "x_div (Num a) b = Num 0"
| "x_div a (Num b) = (if x_lt a (Num 0) = (b < 0) then PInf else MInf)"
| "x_div a b = NaN"

fun x_exp :: "xreal \<Rightarrow> xreal" where
  "x_exp (Num a) = Num (exp a)"
| "x_exp MInf = Num 0"
| "x_exp PInf = PInf"
| "x_exp NaN = NaN"

fun x_log :: "xreal \<Rightarrow> xreal" where
  "x_log (Num a) = (if a < 0 then NaN else if a = 0 then MInf else Num (ln a))"
| "x_log PInf = PInf"
| "x_log a = NaN"

definition fp_ieee :: "xreal fpu" where
  "fp_ieee = \<lparr>fp_lit = (\<lambda>q. Num (of_rat q)), fp_add = x_add, fp_sub = x_sub, fp_mul = x_mul,
              fp_div = x_div, fp_neg = x_neg, fp_exp = x_exp, fp_log = x_log,
              fp_lt = x_lt, fp_eq = x_eq\<rparr>"

text \<open>
  The cell of the first scenario of the specification, a pure absorber (\<open>\<sigma>\<^sub>a = 1\<close>,
  \<open>\<sigma>\<^sub>s = 0\<close>, \<open>f = 1\<close>), with the boundary at \<open>1/2\<close> and census at \<open>10\<close>, and a generator that
  draws \<open>1\<close>, the upper end of its interval \<open>(0, 1]\<close>: the distance to scatter is
  \<open>-log 1 / 0\<close>.
\<close>

definition nan_env :: "(xreal, nat) tracker_env" where
  "nan_env =
     \<lparr>fpu_of = fp_ieee,
      get_on_rank_cell = (\<lambda>i. \<lparr>op_a = Num 1, op_s = Num 0, fleck = Num 1,
                                bc = (\<lambda>face. VACUUM), next_cell = (\<lambda>face. 7)\<rparr>),
      get_distance_to_boundary = (\<lambda>c pos ang face. (Num (1 / 2), 1)),
      mirror_of = (\<lambda>face v. v),
      generate_random_number = (\<lambda>g. (Num 1, Suc g)),
      get_uniform_angle = (\<lambda>g. ((Num 0, Num 1, Num 0), Suc g)),
      speed_of_light = Num 300\<rparr>"

definition nan_entry :: "(xreal, nat) tracker_state" where
  "nan_entry =
     tracker_entry nan_env
       \<lparr>ph_cell = 0, ph_pos = (Num 0, Num 0, Num 0), ph_angle = (Num 1, Num 0, Num 0),
        ph_E = Num 1, ph_E0 = Num 1, ph_distance_remaining = Num 10,
        ph_census_flag = False, ph_alive = True\<rparr>
       0 (Num (1 / 100)) (Num 0) (Num 0) [Num 0]"

definition nan_distances :: "xreal distances" where
  "nan_distances =
     \<lparr>dist_to_scatter = NaN, dist_to_boundary = Num (1 / 2), dist_to_census = Num 10,
      dist_to_event = NaN, face_hit = 1\<rparr>"

definition nan_moved :: "(xreal, nat) tracker_state" where
  "nan_moved =
     nan_entry\<lparr>rng := 1, surface_cross := 1, rank_abs_E := [NaN],
               phtn := (phtn nan_entry)\<lparr>ph_pos := (NaN, NaN, NaN), ph_E := NaN,
                                        ph_distance_remaining := NaN\<rparr>\<rparr>"

subsection \<open>Observing the driver\<close>

text \<open>The calls a step has added to the log, and the sends among calls.\<close>

definition calls_since ::
  "('f, 'r, 's) driver_state \<Rightarrow> ('f, 'r, 's) driver_state \<Rightarrow> 'f mpi_call list" where
  "calls_since s s' = drop (length (mpi_log s)) (mpi_log s')"

definition is_isend :: "'f mpi_call \<Rightarrow> bool" where
  "is_isend c = (case c of Isend dest tag payload \<Rightarrow> True | _ \<Rightarrow> False)"



subsection \<open>Two ranks on the slab\<close>

text \<open>
  A rank of a two-rank run. The source is the number of photons still to draw and hands
  out copies of one photon; cell 7 belongs to the other rank; batches have 10 slots and
  a photon message is sent as soon as one photon is staged.
\<close>

definition slab_rank ::
  "(real, nat) tracker_env \<Rightarrow> real photon \<Rightarrow> nat \<Rightarrow> (nat \<times> nat) list \<Rightarrow> u64
     \<Rightarrow> (real, nat, nat) driver_env" where
  "slab_rank tenv p rank adj n_all =
     \<lparr>tracker_env_of = tenv, tracker_fuel = 1,
      get_photon = (\<lambda>src g t. (p, src - 1, Suc g)),
      get_n_photon = of_nat,
      get_rank = (\<lambda>c. if c = 7 then 1 - rank else rank),
      get_proc_adjacency_list = adj,
      world_rank = rank, world_size = 2, allreduce_sum = n_all,
      get_batch_size = 10, get_particle_message_size = 1, get_next_dt = 1 / 100\<rparr>"

text \<open>A pass in which no test succeeds, and passes in which one does.\<close>

definition quiet :: "real mpi_iter" where
  "quiet = \<lparr>phtn_send_test = (\<lambda>i_b. False), phtn_recv_test = (\<lambda>i_b. None),
     c1_recv_test = None, c2_recv_test = None, p_recv_test = None, p_send_test = False\<rparr>"

definition arrival :: "real mpi_iter" where
  "arrival = quiet\<lparr>phtn_recv_test := (\<lambda>i_b. Some [fresh_photon (ln 200)])\<rparr>"

definition verdict :: "real mpi_iter" where
  "verdict = quiet\<lparr>p_recv_test := Some [3]\<rparr>"

definition count_arrives :: "real mpi_iter" where
  "count_arrives = quiet\<lparr>c1_recv_test := Some [1]\<rparr>"

subsubsection \<open>Rank 1 with two photons of its own, receiving a third\<close>

text \<open>
  Rank 1 of 2 owns two of the three photons of the step; its cell absorbs. The states
  are those of the run with passes \<open>quiet\<close>, \<open>arrival\<close>, \<open>quiet\<close>, \<open>verdict\<close>: both photons
  are killed in the first pass and the count 2 goes to the parent; a photon arrives from
  rank 0 in the second; it is killed in the third, which reaches line 464 in
  \<open>leaf_at_464\<close>; the global count arrives in the fourth. No test of the send to the
  parent succeeds. \<open>leaf_at_515\<close> is the state at line 515.
\<close>

definition leaf_env :: "(real, nat, nat) driver_env" where
  "leaf_env = slab_rank absorber_env (fresh_photon (ln 200)) 1 [(0, 0)] 3"

definition leaf_start :: "(real, nat, nat) driver_state" where
  "leaf_start = (initial_state leaf_env 2 [0] 0)\<lparr>
      exit_E := 0, census_E := 0,
      send_list := [[]], p_recv_request := InFlight,
      phtn_recv_request := [InFlight],
      n_receives_posted := 2,
      p_recv_buffer := \<lparr>object = [], status = AWAITING\<rparr>,
      phtn_recv_buffer := [\<lparr>object = [], status = AWAITING\<rparr>],
      mpi_log := [Irecv (Some 0) count_tag, Irecv (Some 0) photon_tag]\<rparr>"

definition leaf_pass1 :: "(real, nat, nat) driver_state" where
  "leaf_pass1 = leaf_start\<lparr>rng := 4, rank_abs_E := [2], source := 0, n_sends_posted := 1,
     p_send_request := InFlight, p_send_buffer := \<lparr>object = [2], status = SENT\<rparr>,
     n_local_sourced := 2,
     mpi_log := mpi_log leaf_start @ [Isend (Some 0) count_tag (Counts [2])]\<rparr>"

definition leaf_pass2 :: "(real, nat, nat) driver_state" where
  "leaf_pass2 = leaf_pass1\<lparr>n_receives_posted := 3, n_receives_completed := 1,
     phtn_recv_stack := [fresh_photon (ln 200)],
     mpi_log := mpi_log leaf_pass1 @ [Irecv (Some 0) photon_tag]\<rparr>"

definition leaf_at_464 :: "(real, nat, nat) driver_state" where
  "leaf_at_464 = leaf_pass2\<lparr>rng := 5, rank_abs_E := [3], phtn_recv_stack := [],
     tree_count := 1\<rparr>"

definition leaf_pass3 :: "(real, nat, nat) driver_state" where
  "leaf_pass3 = leaf_at_464\<lparr>n_sends_posted := 2,
     p_send_buffer := \<lparr>object = [1], status = SENT\<rparr>, tree_count := 0,
     mpi_log := mpi_log leaf_at_464 @ [Isend (Some 0) count_tag (Counts [1])]\<rparr>"

definition leaf_pass4 :: "(real, nat, nat) driver_state" where
  "leaf_pass4 = leaf_pass3\<lparr>n_receives_completed := 2, p_recv_request := Completed,
     p_recv_buffer := \<lparr>object = [3], status = RECEIVED\<rparr>, parent_count := 3,
     finished := True\<rparr>"

definition leaf_at_515 :: "(real, nat, nat) driver_state" where
  "leaf_at_515 = leaf_pass4\<lparr>n_sends_completed := 1, p_send_request := Completed,
     mpi_log := mpi_log leaf_pass4 @ [Barrier]\<rparr>"

definition leaf_final :: "(real, nat, nat) driver_state" where
  "leaf_final = leaf_at_515\<lparr>n_sends_posted := 4, n_sends_completed := 3,
     n_receives_completed := 3, phtn_send_request := [Completed],
     phtn_recv_request := [Completed],
     mpi_log := mpi_log leaf_at_515 @
       [Isend (Some 0) count_tag (Counts [1]), Isend (Some 0) photon_tag (Photons []),
        Barrier]\<rparr>"

subsubsection \<open>Rank 0 with one photon that crosses to rank 1\<close>

text \<open>
  Rank 0 of 2 owns the only photon of the step; the faces of its transparent cell lead
  to a cell of rank 1. The states are those of the run with passes \<open>quiet\<close>,
  \<open>count_arrives\<close>: the photon is tracked to the face (\<open>root_tracked\<close>) and sent in the
  first pass; in the second the test of that send fails and the count 1 arrives from
  rank 1.
\<close>

definition processor_env :: "(real, nat) tracker_env" where
  "processor_env = slab_env (slab_cell 0 1 PROCESSOR) (exp (- 2)) (1 / 2)"

definition crossed_photon :: "real photon" where
  "crossed_photon = (fresh_photon 10)\<lparr>ph_cell := 7, ph_pos := (1 / 2, 0, 0),
     ph_distance_remaining := 19 / 2\<rparr>"

definition root_env :: "(real, nat, nat) driver_env" where
  "root_env = slab_rank processor_env (fresh_photon 10) 0 [(1, 0)] 1"

definition root_start :: "(real, nat, nat) driver_state" where
  "root_start = (initial_state root_env 1 [0] 0)\<lparr>
      exit_E := 0, census_E := 0,
      send_list := [[]], c1_recv_request := InFlight,
      phtn_recv_request := [InFlight],
      n_receives_posted := 2,
      c1_recv_buffer := \<lparr>object = [], status = AWAITING\<rparr>,
      phtn_recv_buffer := [\<lparr>object = [], status = AWAITING\<rparr>],
      mpi_log := [Irecv (Some 1) count_tag, Irecv (Some 1) photon_tag]\<rparr>"

definition root_tracked :: "(real, nat, nat) driver_state" where
  "root_tracked = root_start\<lparr>rng := 2, source := 0, n_local_sourced := 1,
     send_list := [[crossed_photon]]\<rparr>"

definition root_pass1 :: "(real, nat, nat) driver_state" where
  "root_pass1 = root_tracked\<lparr>send_list := [[]], n_photons_sent := 1,
     phtn_send_request := [InFlight], n_sends_posted := 1,
     phtn_send_buffer := [\<lparr>object = [crossed_photon], status = SENT\<rparr>],
     n_photon_messages := 1,
     mpi_log := mpi_log root_tracked
        @ [Isend (Some 1) photon_tag (Photons [crossed_photon])]\<rparr>"

definition root_pass2 :: "(real, nat, nat) driver_state" where
  "root_pass2 = root_pass1\<lparr>n_receives_completed := 1, c1_count := 1, tree_count := 1,
     n_receives_posted := 3, finished := True,
     mpi_log := mpi_log root_pass1 @ [Irecv (Some 1) count_tag]\<rparr>"

definition root_final :: "(real, nat, nat) driver_state" where
  "root_final = root_pass2\<lparr>n_sends_posted := 3, n_sends_completed := 2,
     n_receives_completed := 3,
     c1_send_buffer := \<lparr>object = [1], status = EMPTY\<rparr>,
     c1_send_request := Completed, c1_recv_request := Completed,
     phtn_send_request := [Completed], phtn_recv_request := [Completed],
     mpi_log := mpi_log root_pass2 @
       [Isend (Some 1) count_tag (Counts [1]), Barrier,
        Isend (Some 1) photon_tag (Photons []), Barrier]\<rparr>"

subsubsection \<open>Rank 1 in a step without photons\<close>

text \<open>
  Rank 1 of 2 when no rank has a photon: one \<open>quiet\<close> pass, in which the count of the
  parent has not arrived yet.
\<close>

definition idle_env :: "(real, nat, nat) driver_env" where
  "idle_env = slab_rank absorber_env (fresh_photon (ln 200)) 1 [(0, 0)] 0"

definition idle_start :: "(real, nat, nat) driver_state" where
  "idle_start = (initial_state idle_env 0 [0] 0)\<lparr>
      exit_E := 0, census_E := 0,
      send_list := [[]], p_recv_request := InFlight,
      phtn_recv_request := [InFlight],
      n_receives_posted := 2,
      p_recv_buffer := \<lparr>object = [], status = AWAITING\<rparr>,
      phtn_recv_buffer := [\<lparr>object = [], status = AWAITING\<rparr>],
      mpi_log := [Irecv (Some 0) count_tag, Irecv (Some 0) photon_tag]\<rparr>"

definition idle_final :: "(real, nat, nat) driver_state" where
  "idle_final = idle_start\<lparr>finished := True, n_sends_posted := 2, n_sends_completed := 2,
     n_receives_completed := 1,
     p_send_buffer := \<lparr>object = [1], status = EMPTY\<rparr>, p_send_request := Completed,
     phtn_send_request := [Completed], phtn_recv_request := [Completed],
     mpi_log := mpi_log idle_start @
       [Barrier, Isend (Some 0) count_tag (Counts [1]),
        Isend (Some 0) photon_tag (Photons []), Barrier]\<rparr>"

section \<open>Properties of the tracker\<close>

lemmas tracker_defs =
  transport_photon_particle_pass_def tracker_entry_def track_segment_def
  segment_distances_def absorb_and_move_def apply_boundary_def apply_scatter_def
  apply_census_def apply_cutoff_def below_cutoff_def cutoff_fraction_def move_def std_min_def
  slab_env_def slab_cell_def fresh_photon_def fp_real_def Let_def set_dead_def reflect_def
  of_rat_divide

subsection \<open>What a segment leaves alone\<close>

lemma absorb_and_move_frame:
  assumes "absorb_and_move env ds g ts = Some ts1"
  shows "active ts1 = active ts" "event ts1 = event ts" "next_dt ts1 = next_dt ts"
    "exit_E ts1 = exit_E ts" "census_E ts1 = census_E ts" "cell_id ts1 = cell_id ts"
    "cur_cell ts1 = cur_cell ts" "length (rank_abs_E ts1) = length (rank_abs_E ts)"
  using assms by (auto simp: absorb_and_move_def Let_def split: if_splits)

lemma apply_scatter_frame:
  "active (apply_scatter env ts) = active ts" "event (apply_scatter env ts) = event ts"
  "next_dt (apply_scatter env ts) = next_dt ts" "exit_E (apply_scatter env ts) = exit_E ts"
  "census_E (apply_scatter env ts) = census_E ts"
  by (simp_all add: apply_scatter_def Let_def split: prod.splits)

lemma track_segment_cases:
  assumes "track_segment env ts = Some ts'"
  obtains ds g ts1 where "segment_distances env ts = (ds, g)"
    and "absorb_and_move env ds g ts = Some ts1"
    and "ts' = apply_cutoff env ts1 \<or> ts' = apply_scatter env ts1
         \<or> ts' = apply_boundary env ts1 \<or> ts' = apply_census env ts1 \<or> ts' = ts1"
  using assms
  by (auto simp: track_segment_def Let_def split: prod.splits option.splits if_splits)

subsection \<open>The loop ends with a terminal event\<close>

lemma terminal_ok_segment:
  assumes "track_segment env ts = Some ts'" and "active ts"
  shows "terminal_ok ts'"
  using assms(1)
proof (cases rule: track_segment_cases)
  case (1 ds g ts1)
  have a: "active ts1"
    using absorb_and_move_frame(1)[OF 1(2)] assms(2) by simp
  have "terminal_ok (apply_boundary env ts1)"
    using a by (simp add: terminal_ok_def apply_boundary_def Let_def)
  moreover have "terminal_ok (apply_scatter env ts1)"
    using a by (simp add: terminal_ok_def apply_scatter_frame)
  moreover have "terminal_ok (apply_cutoff env ts1)" "terminal_ok (apply_census env ts1)"
    "terminal_ok ts1"
    using a by (simp_all add: terminal_ok_def apply_cutoff_def apply_census_def Let_def)
  ultimately show ?thesis using 1(3) by auto
qed

lemma tracker_loop_terminal:
  "tracker_loop fuel env ts = Returns ts' \<Longrightarrow> terminal_ok ts
     \<Longrightarrow> terminal_ok ts' \<and> \<not> active ts'"
proof (induction fuel arbitrary: ts)
  case 0
  then show ?case by (auto split: if_splits)
next
  case (Suc fuel)
  show ?case
  proof (cases "active ts")
    case False
    with Suc.prems show ?thesis by auto
  next
    case True
    with Suc.prems obtain ts1 where s: "track_segment env ts = Some ts1"
      and l: "tracker_loop fuel env ts1 = Returns ts'"
      by (auto split: option.splits)
    from Suc.IH[OF l terminal_ok_segment[OF s True]] show ?thesis .
  qed
qed

text \<open>
  C9. Every call of \<^verbatim>\<open>transport_photon_particle_pass\<close> that returns, returns one of
  \<open>KILL\<close>, \<open>EXIT\<close>, \<open>CENSUS\<close>, \<open>PASS\<close>; it never returns \<open>WAIT\<close>, so the \<open>WAIT\<close> case of the
  driver's switch is not reachable.
\<close>

theorem tracker_never_returns_WAIT:
  assumes "transport_photon_particle_pass fuel env p g ndt ex ce abs_E = Returns r"
  shows "res_event r \<in> {KILL, EXIT, CENSUS, PASS} \<and> res_event r \<noteq> WAIT"
proof -
  from assms obtain ts
    where l: "tracker_loop fuel env (tracker_entry env p g ndt ex ce abs_E) = Returns ts"
      and e: "event ts = Some (res_event r)"
    by (auto simp: transport_photon_particle_pass_def split: run.splits option.splits)
  have "terminal_ok (tracker_entry env p g ndt ex ce abs_E)"
    by (simp add: terminal_ok_def tracker_entry_def)
  from tracker_loop_terminal[OF l this] e show ?thesis
    by (auto simp: terminal_ok_def)
qed

theorem tracker_never_returns_WAIT_witness:
  "transport_photon_particle_pass 1 vacuum_env (fresh_photon 10) 0 (1 / 100) 0 0 [0]
     = Returns exit_result
   \<and> res_event exit_result \<in> {KILL, EXIT, CENSUS, PASS} \<and> res_event exit_result \<noteq> WAIT"
  using tracker_never_returns_WAIT
    [of 1 vacuum_env "fresh_photon 10" 0 "1 / 100" 0 0 "[0]" exit_result]
  by (simp add: tracker_defs vacuum_env_def exit_result_def)

subsection \<open>The accumulators\<close>

lemma frame_ok_segment:
  assumes "track_segment env ts = Some ts'" and "active ts" and "frame_ok env ndt ex ce ts"
  shows "frame_ok env ndt ex ce ts'"
  using assms(1)
proof (cases rule: track_segment_cases)
  case (1 ds g ts1)
  have a: "active ts1" "next_dt ts1 = ndt" "exit_E ts1 = ex" "census_E ts1 = ce"
    using absorb_and_move_frame[OF 1(2)] assms(2,3) by (simp_all add: frame_ok_def)
  have "frame_ok env ndt ex ce (apply_boundary env ts1)"
    using a by (simp add: frame_ok_def apply_boundary_def Let_def)
  moreover have "frame_ok env ndt ex ce (apply_scatter env ts1)"
    using a by (simp add: frame_ok_def apply_scatter_frame)
  moreover have "frame_ok env ndt ex ce (apply_cutoff env ts1)"
    using a by (simp add: frame_ok_def apply_cutoff_def)
  moreover have "frame_ok env ndt ex ce (apply_census env ts1)"
    using a by (simp add: frame_ok_def apply_census_def Let_def)
  moreover have "frame_ok env ndt ex ce ts1"
    using a by (simp add: frame_ok_def)
  ultimately show ?thesis using 1(3) by auto
qed

lemma tracker_loop_frame:
  "tracker_loop fuel env ts = Returns ts' \<Longrightarrow> frame_ok env ndt ex ce ts
     \<Longrightarrow> frame_ok env ndt ex ce ts'"
proof (induction fuel arbitrary: ts)
  case 0
  then show ?case by (auto split: if_splits)
next
  case (Suc fuel)
  show ?case
  proof (cases "active ts")
    case False
    with Suc.prems show ?thesis by auto
  next
    case True
    with Suc.prems obtain ts1 where s: "track_segment env ts = Some ts1"
      and l: "tracker_loop fuel env ts1 = Returns ts'"
      by (auto split: option.splits)
    from Suc.IH[OF l frame_ok_segment[OF s True Suc.prems(2)]] show ?thesis .
  qed
qed

text \<open>
  C10. For a call that returns: \<^verbatim>\<open>next_dt\<close> is what it was at entry; \<^verbatim>\<open>exit_E\<close> is what it
  was at entry unless the event is \<open>EXIT\<close>, and then it is the entry value plus the energy
  the photon has at the end; \<^verbatim>\<open>census_E\<close> is what it was at entry unless the event is
  \<open>CENSUS\<close>, and then it is the entry value plus the energy the photon has at the end.
  "Plus" is the addition of the source, \<open>fp_add\<close>.
\<close>

theorem tracker_accumulator_frame:
  assumes "transport_photon_particle_pass fuel env p g ndt ex ce abs_E = Returns r"
  shows "res_next_dt r = ndt \<and>
         res_exit_E r = (if res_event r = EXIT
                         then fp_add (fpu_of env) ex (ph_E (res_phtn r)) else ex) \<and>
         res_census_E r = (if res_event r = CENSUS
                           then fp_add (fpu_of env) ce (ph_E (res_phtn r)) else ce)"
proof -
  from assms obtain ts
    where l: "tracker_loop fuel env (tracker_entry env p g ndt ex ce abs_E) = Returns ts"
      and e: "event ts = Some (res_event r)"
      and r: "res_next_dt r = next_dt ts" "res_exit_E r = exit_E ts"
        "res_census_E r = census_E ts" "res_phtn r = phtn ts"
    by (auto simp: transport_photon_particle_pass_def split: run.splits option.splits)
  have "frame_ok env ndt ex ce (tracker_entry env p g ndt ex ce abs_E)"
    by (simp add: frame_ok_def tracker_entry_def)
  from tracker_loop_frame[OF l this] have f: "frame_ok env ndt ex ce ts" .
  have na: "\<not> active ts"
    using tracker_loop_terminal[OF l] by (simp add: terminal_ok_def tracker_entry_def)
  from f na e r show ?thesis by (simp add: frame_ok_def)
qed

theorem tracker_accumulator_frame_witness:
  "transport_photon_particle_pass 1 vacuum_env (fresh_photon (1 / 4)) 0 (1 / 100) 0 0 [0]
     = Returns census_result
   \<and> res_next_dt census_result = 1 / 100 \<and> res_exit_E census_result = 0
   \<and> res_census_E census_result = 0 + ph_E (res_phtn census_result)"
  using tracker_accumulator_frame
    [of 1 vacuum_env "fresh_photon (1 / 4)" 0 "1 / 100" 0 0 "[0]" census_result]
  by (simp add: tracker_defs vacuum_env_def census_result_def)

subsection \<open>The cutoff\<close>

text \<open>
  C6. In a segment of the loop, let \<open>ts1\<close> be the state after the energy of the photon has
  been decremented by the absorbed energy and the photon moved. If that energy is below
  \<open>0.01\<close> times the initial energy, the loop returns in this segment: the remaining energy
  has been added to \<^verbatim>\<open>rank_abs_E\<close> at the current cell, the photon is dead and the event is
  \<open>KILL\<close>. Nothing is assumed about which distance is the minimum: no scatter, boundary
  or census event is applied.
\<close>

theorem cutoff_returns_KILL:
  assumes "active ts"
    and "segment_distances env ts = (ds, g)"
    and "absorb_and_move env ds g ts = Some ts1"
    and "fp_lt (fpu_of env) (ph_E (phtn ts1))
           (fp_mul (fpu_of env) (fp_lit (fpu_of env) (1 / 100)) (ph_E0 (phtn ts1)))"
  shows "tracker_loop (Suc fuel) env ts =
           Returns (ts1\<lparr>rank_abs_E := (rank_abs_E ts1)
                          [cell_id ts := fp_add (fpu_of env) (rank_abs_E ts1 ! cell_id ts)
                                           (ph_E (phtn ts1))],
                        phtn := (phtn ts1)\<lparr>ph_alive := False\<rparr>,
                        active := False,
                        event := Some KILL\<rparr>)"
proof -
  have c: "cell_id ts1 = cell_id ts"
    using absorb_and_move_frame(6)[OF assms(3)] .
  have "track_segment env ts = Some (apply_cutoff env ts1)"
    using assms(2-4) by (simp add: track_segment_def below_cutoff_def cutoff_fraction_def)
  moreover have "\<not> active (apply_cutoff env ts1)"
    by (simp add: apply_cutoff_def)
  ultimately show ?thesis
    using assms(1) c by (cases fuel) (simp_all add: apply_cutoff_def set_dead_def)
qed

lemma absorber_segment: "segment_distances absorber_env absorber_entry = (absorber_distances, 1)"
  by (simp add: absorber_env_def absorber_entry_def absorber_distances_def tracker_defs ln_div)

lemma absorber_move:
  "absorb_and_move absorber_env absorber_distances 1 absorber_entry = Some absorber_moved"
  by (simp add: absorber_env_def absorber_entry_def absorber_distances_def absorber_moved_def
      tracker_defs exp_minus)

theorem cutoff_returns_KILL_witness:
  "active absorber_entry
   \<and> segment_distances absorber_env absorber_entry = (absorber_distances, 1)
   \<and> absorb_and_move absorber_env absorber_distances 1 absorber_entry = Some absorber_moved
   \<and> ph_E (phtn absorber_moved) < 1 / 100 * ph_E0 (phtn absorber_moved)
   \<and> tracker_loop 1 absorber_env absorber_entry =
       Returns (absorber_moved\<lparr>rank_abs_E := [1],
         phtn := (phtn absorber_moved)\<lparr>ph_alive := False\<rparr>, active := False,
         event := Some KILL\<rparr>)"
proof -
  have a: "active absorber_entry"
    by (simp add: absorber_entry_def tracker_entry_def)
  have c: "fp_lt (fpu_of absorber_env) (ph_E (phtn absorber_moved))
      (fp_mul (fpu_of absorber_env) (fp_lit (fpu_of absorber_env) (1 / 100))
          (ph_E0 (phtn absorber_moved)))"
    by (simp add: absorber_moved_def absorber_env_def tracker_defs)
  have r: "(rank_abs_E absorber_moved)
      [cell_id absorber_entry := fp_add (fpu_of absorber_env)
         (rank_abs_E absorber_moved ! cell_id absorber_entry) (ph_E (phtn absorber_moved))] = [1]"
    by (simp add: absorber_moved_def absorber_entry_def absorber_env_def tracker_defs)
  have c': "ph_E (phtn absorber_moved) < 1 / 100 * ph_E0 (phtn absorber_moved)"
    by (simp add: absorber_moved_def tracker_defs)
  from cutoff_returns_KILL [OF a absorber_segment absorber_move c, of 0]
  have "tracker_loop 1 absorber_env absorber_entry =
       Returns (absorber_moved\<lparr>rank_abs_E := [1],
         phtn := (phtn absorber_moved)\<lparr>ph_alive := False\<rparr>, active := False,
         event := Some KILL\<rparr>)"
    unfolding r by simp
  with a absorber_segment absorber_move c' show ?thesis by blast
qed

subsection \<open>The event of a segment\<close>

lemma segment_distances_event:
  assumes "segment_distances env ts = (ds, g)"
  shows "dist_to_event ds =
      std_min (fpu_of env) (dist_to_scatter ds)
        (std_min (fpu_of env) (dist_to_boundary ds) (dist_to_census ds))"
  using assms by (auto simp: segment_distances_def Let_def split: prod.splits)

text \<open>
  C7, for distances that are numbers. Take a segment that the cutoff does not end and in which none of the
  three distances is NaN: the comparisons \<^verbatim>\<open><\<close> and \<^verbatim>\<open>==\<close> of the source compare the distances
  to scatter, to the boundary and to census as the numbers \<open>num\<close> gives them. Then the event
  distance is one of the three and is their minimum, and the segment applies the first of
  scatter, boundary, census whose distance equals it: scatter when the scatter distance
  is the minimum (also when the boundary distance ties with it), else boundary when the
  boundary distance is (also when the census distance ties with it), else census, whose
  distance is then the minimum. One of the three is always applied.
\<close>

theorem event_is_nearest:
  fixes num :: "'f \<Rightarrow> 'n::linorder"
  assumes "segment_distances env ts = (ds, g)"
    and "absorb_and_move env ds g ts = Some ts1"
    and "\<not> below_cutoff (fpu_of env) (phtn ts1) (cutoff_fraction (fpu_of env))"
    and "\<forall>x \<in> {dist_to_scatter ds, dist_to_boundary ds, dist_to_census ds}.
         \<forall>y \<in> {dist_to_scatter ds, dist_to_boundary ds, dist_to_census ds}.
           (fp_lt (fpu_of env) x y \<longleftrightarrow> num x < num y) \<and>
           (fp_eq (fpu_of env) x y \<longleftrightarrow> num x = num y)"
  shows "dist_to_event ds \<in> {dist_to_scatter ds, dist_to_boundary ds, dist_to_census ds} \<and>
         num (dist_to_event ds) =
           Min {num (dist_to_scatter ds), num (dist_to_boundary ds), num (dist_to_census ds)} \<and>
         track_segment env ts =
           Some (if fp_eq (fpu_of env) (dist_to_event ds) (dist_to_scatter ds)
                 then apply_scatter env ts1
                 else if fp_eq (fpu_of env) (dist_to_event ds) (dist_to_boundary ds)
                 then apply_boundary env ts1
                 else apply_census env ts1) \<and>
         (\<not> fp_eq (fpu_of env) (dist_to_event ds) (dist_to_scatter ds) \<and>
          \<not> fp_eq (fpu_of env) (dist_to_event ds) (dist_to_boundary ds)
            \<longrightarrow> fp_eq (fpu_of env) (dist_to_event ds) (dist_to_census ds))"
proof -
  let ?fp = "fpu_of env"
  let ?s = "dist_to_scatter ds" and ?b = "dist_to_boundary ds" and ?c = "dist_to_census ds"
  have lt: "fp_lt ?fp x y \<longleftrightarrow> num x < num y" and eq: "fp_eq ?fp x y \<longleftrightarrow> num x = num y"
    if "x \<in> {?s, ?b, ?c}" "y \<in> {?s, ?b, ?c}" for x y
    using assms(4) that by blast+
  have d: "dist_to_event ds = std_min ?fp ?s (std_min ?fp ?b ?c)"
    using segment_distances_event[OF assms(1)] .
  have i: "std_min ?fp ?b ?c \<in> {?b, ?c}"
    by (simp add: std_min_def)
  have n: "num (std_min ?fp ?b ?c) = min (num ?b) (num ?c)"
    using lt[of ?c ?b] by (auto simp: std_min_def min_def)
  have m: "dist_to_event ds \<in> {?s, ?b, ?c}"
    unfolding d using i by (auto simp: std_min_def)
  have v: "num (dist_to_event ds) = min (num ?s) (min (num ?b) (num ?c))"
  proof -
    have "fp_lt ?fp (std_min ?fp ?b ?c) ?s \<longleftrightarrow> num (std_min ?fp ?b ?c) < num ?s"
      using i lt[of ?b ?s] lt[of ?c ?s] by auto
    then show ?thesis
      unfolding d using n by (auto simp: std_min_def[of ?fp ?s] min_def)
  qed
  have e: "fp_eq ?fp (dist_to_event ds) y \<longleftrightarrow> num (dist_to_event ds) = num y"
    if "y \<in> {?s, ?b, ?c}" for y
    using eq[OF m that] .
  have l: "\<not> fp_eq ?fp (dist_to_event ds) ?s \<and> \<not> fp_eq ?fp (dist_to_event ds) ?b
            \<longrightarrow> fp_eq ?fp (dist_to_event ds) ?c"
    using m e by auto
  have t: "track_segment env ts =
           Some (if fp_eq ?fp (dist_to_event ds) ?s then apply_scatter env ts1
                 else if fp_eq ?fp (dist_to_event ds) ?b then apply_boundary env ts1
                 else apply_census env ts1)"
    using assms(1-3) l by (simp add: track_segment_def)
  have "num (dist_to_event ds) = Min {num ?s, num ?b, num ?c}"
    using v by simp
  with m t l show ?thesis by blast
qed

lemma tie_segment: "segment_distances vacuum_env tie_entry = (tie_distances, 1)"
  by (simp add: vacuum_env_def tie_entry_def tie_distances_def tracker_defs)

lemma tie_move: "absorb_and_move vacuum_env tie_distances 1 tie_entry = Some tie_moved"
  by (simp add: vacuum_env_def tie_entry_def tie_distances_def tie_moved_def tracker_defs)

lemma tie_not_cut:
  "\<not> below_cutoff (fpu_of vacuum_env) (phtn tie_moved) (cutoff_fraction (fpu_of vacuum_env))"
  by (simp add: vacuum_env_def tie_moved_def tracker_defs)

lemma tie_numbers:
  "\<forall>x \<in> {dist_to_scatter tie_distances, dist_to_boundary tie_distances,
          dist_to_census tie_distances}.
   \<forall>y \<in> {dist_to_scatter tie_distances, dist_to_boundary tie_distances,
          dist_to_census tie_distances}.
     (fp_lt (fpu_of vacuum_env) x y \<longleftrightarrow> x < y) \<and> (fp_eq (fpu_of vacuum_env) x y \<longleftrightarrow> x = y)"
  by (simp add: vacuum_env_def slab_env_def fp_real_def)

theorem event_is_nearest_witness:
  "segment_distances vacuum_env tie_entry = (tie_distances, 1)
   \<and> absorb_and_move vacuum_env tie_distances 1 tie_entry = Some tie_moved
   \<and> \<not> below_cutoff (fpu_of vacuum_env) (phtn tie_moved) (cutoff_fraction (fpu_of vacuum_env))
   \<and> fp_eq (fpu_of vacuum_env) (dist_to_boundary tie_distances) (dist_to_census tie_distances)
   \<and> dist_to_event tie_distances = Min {2, 1 / 2, 1 / 2}
   \<and> track_segment vacuum_env tie_entry = Some (apply_boundary vacuum_env tie_moved)
   \<and> event (apply_boundary vacuum_env tie_moved) = Some EXIT"
proof -
  have e: "event (apply_boundary vacuum_env tie_moved) = Some EXIT"
    by (simp add: vacuum_env_def tie_moved_def tie_entry_def tracker_defs)
  have f: "fp_eq (fpu_of vacuum_env) = (=)"
    by (simp add: vacuum_env_def slab_env_def fp_real_def)
  from event_is_nearest [OF tie_segment tie_move tie_not_cut, of "\<lambda>x. x", OF tie_numbers]
  have "dist_to_event tie_distances = Min {2, 1 / 2, 1 / 2}
     \<and> track_segment vacuum_env tie_entry = Some (apply_boundary vacuum_env tie_moved)"
    by (simp add: tie_distances_def f)
  with tie_segment tie_move tie_not_cut e show ?thesis
    by (simp add: tie_distances_def f)
qed

text \<open>
  With a NaN distance the statement without the condition fails. In the absorber of the
  first scenario, when the generator draws 1, the distance to scatter is \<open>0/0\<close>, NaN;
  \<^verbatim>\<open>std::min\<close> returns it although the boundary is at \<open>1/2\<close>; the cutoff does not end the
  segment; no comparison of lines 96, 101, 124 succeeds, and the segment applies no
  event: the photon stays active with no event set.
\<close>

theorem event_is_nearest_fails_on_NaN:
  "segment_distances nan_env nan_entry = (nan_distances, 1)
   \<and> absorb_and_move nan_env nan_distances 1 nan_entry = Some nan_moved
   \<and> \<not> below_cutoff (fpu_of nan_env) (phtn nan_moved) (cutoff_fraction (fpu_of nan_env))
   \<and> dist_to_scatter nan_distances = NaN
   \<and> dist_to_boundary nan_distances = Num (1 / 2)
   \<and> dist_to_census nan_distances = Num 10
   \<and> dist_to_event nan_distances = NaN
   \<and> \<not> fp_lt (fpu_of nan_env) (dist_to_event nan_distances) (dist_to_boundary nan_distances)
   \<and> \<not> fp_eq (fpu_of nan_env) (dist_to_event nan_distances) (dist_to_scatter nan_distances)
   \<and> \<not> fp_eq (fpu_of nan_env) (dist_to_event nan_distances) (dist_to_boundary nan_distances)
   \<and> \<not> fp_eq (fpu_of nan_env) (dist_to_event nan_distances) (dist_to_census nan_distances)
   \<and> track_segment nan_env nan_entry = Some nan_moved
   \<and> active nan_moved \<and> event nan_moved = None
   \<and> nan_moved \<noteq> apply_scatter nan_env nan_moved
   \<and> nan_moved \<noteq> apply_boundary nan_env nan_moved
   \<and> nan_moved \<noteq> apply_census nan_env nan_moved"
proof -
  have a: "segment_distances nan_env nan_entry = (nan_distances, 1)"
    by (simp add: nan_env_def nan_entry_def nan_distances_def fp_ieee_def x_sub_def
        segment_distances_def tracker_entry_def std_min_def Let_def)
  have b: "absorb_and_move nan_env nan_distances 1 nan_entry = Some nan_moved"
    by (simp add: nan_env_def nan_entry_def nan_distances_def nan_moved_def fp_ieee_def
        x_sub_def absorb_and_move_def tracker_entry_def move_def Let_def)
  have c: "\<not> below_cutoff (fpu_of nan_env) (phtn nan_moved) (cutoff_fraction (fpu_of nan_env))"
    by (simp add: nan_env_def nan_moved_def nan_entry_def fp_ieee_def below_cutoff_def
        cutoff_fraction_def tracker_entry_def)
  have d: "\<not> fp_lt (fpu_of nan_env) (dist_to_event nan_distances) (dist_to_boundary nan_distances)"
    "\<not> fp_eq (fpu_of nan_env) (dist_to_event nan_distances) (dist_to_scatter nan_distances)"
    "\<not> fp_eq (fpu_of nan_env) (dist_to_event nan_distances) (dist_to_boundary nan_distances)"
    "\<not> fp_eq (fpu_of nan_env) (dist_to_event nan_distances) (dist_to_census nan_distances)"
    by (simp_all add: nan_env_def nan_distances_def fp_ieee_def)
  have t: "track_segment nan_env nan_entry = Some nan_moved"
    using a b c d by (simp add: track_segment_def)
  have s: "active nan_moved" "event nan_moved = None"
    by (simp_all add: nan_moved_def nan_entry_def tracker_entry_def)
  have "active nan_moved \<noteq> active (apply_boundary nan_env nan_moved)"
    by (simp add: apply_boundary_def nan_moved_def nan_entry_def tracker_entry_def nan_env_def)
  then have n1: "nan_moved \<noteq> apply_boundary nan_env nan_moved" by metis
  have "active nan_moved \<noteq> active (apply_census nan_env nan_moved)"
    by (simp add: apply_census_def nan_moved_def nan_entry_def tracker_entry_def Let_def)
  then have n2: "nan_moved \<noteq> apply_census nan_env nan_moved" by metis
  have "rng nan_moved \<noteq> rng (apply_scatter nan_env nan_moved)"
    by (simp add: apply_scatter_def nan_moved_def nan_entry_def tracker_entry_def nan_env_def)
  then have n3: "nan_moved \<noteq> apply_scatter nan_env nan_moved" by metis
  from a b c d t s n1 n2 n3 show ?thesis
    by (simp add: nan_distances_def)
qed

section \<open>Properties of the driver\<close>

subsection \<open>Sequencing\<close>

lemma and_then_Returns:
  "and_then r f = Returns y \<longleftrightarrow> (\<exists>x. r = Returns x \<and> f x = Returns y)"
  by (cases r) (simp_all add: and_then_def)

lemma for_each_preserves:
  assumes "\<And>x s s'. f x s = Returns s' \<Longrightarrow> P s \<Longrightarrow> P s'"
  shows "for_each f xs s = Returns s' \<Longrightarrow> P s \<Longrightarrow> P s'"
proof (induction xs arbitrary: s)
  case Nil
  then show ?case by simp
next
  case (Cons x xs)
  from Cons.prems(1) obtain s1
    where a: "f x s = Returns s1" and b: "for_each f xs s1 = Returns s'"
    by (auto simp: and_then_Returns)
  from Cons.IH[OF b assms[OF a Cons.prems(2)]] show ?case .
qed

subsection \<open>Only line 474 writes the loop flag\<close>

lemma apply_event_finished:
  "apply_event env ev p s = Some s' \<Longrightarrow> finished s' = finished s"
  by (cases ev) (auto simp: apply_event_def Let_def split: prod.splits if_splits)

lemma track_slot_finished:
  "track_slot env s = Returns s' \<Longrightarrow> finished s' = finished s"
  by (auto simp: track_slot_def next_particle_def and_then_Returns Let_def
      split: prod.splits option.splits if_splits dest!: apply_event_finished)

lemma track_batch_finished:
  "track_batch env n s = Returns s' \<Longrightarrow> finished s' = finished s"
proof (induction n arbitrary: s)
  case 0
  then show ?case by simp
next
  case (Suc n)
  then show ?case
    by (auto simp: and_then_Returns split: if_splits dest!: track_slot_finished)
qed

lemma process_neighbor_finished:
  "process_neighbor io e s = Returns s' \<Longrightarrow> finished s' = finished s"
  by (auto simp: process_neighbor_def test_photon_recv_def post_photon_send_def
      test_photon_send_def Let_def split: prod.splits option.splits if_splits)

lemma process_photon_messages_finished:
  assumes "process_photon_messages io s = Returns s'"
  shows "finished s' = finished s"
proof -
  have "finished s' = finished s" if "for_each (process_neighbor io) xs s = Returns s'" for xs
    using for_each_preserves
      [where P="\<lambda>t. finished t = finished s" and f="process_neighbor io", OF _ that]
    by (simp add: process_neighbor_finished)
  then show ?thesis using assms by (simp add: process_photon_messages_def)
qed

lemma tree_tests_finished:
  "test_c1_recv io s = Returns s' \<Longrightarrow> finished s' = finished s"
  "test_c2_recv io s = Returns s' \<Longrightarrow> finished s' = finished s"
  "test_p_recv io s = Returns s' \<Longrightarrow> finished s' = finished s"
  by (auto simp: test_c1_recv_def test_c2_recv_def test_p_recv_def Let_def
      split: option.splits if_splits)

lemma before_parent_send_finished:
  assumes "before_parent_send env io s = Returns s'"
  shows "finished s' = finished s"
proof -
  from assms obtain s1 s2 s3 s4 s5 where
    "track_batch env (unat (batch_size s)) s = Returns s1"
    "process_photon_messages io s1 = Returns s2"
    "test_c1_recv io s2 = Returns s3" "test_c2_recv io s3 = Returns s4"
    "test_p_recv io s4 = Returns s5" "s' = roll_up (test_p_send io s5)"
    by (auto simp: before_parent_send_def and_then_Returns)
  then show ?thesis
    using track_batch_finished[of env _ s s1] process_photon_messages_finished[of io s1 s2]
      tree_tests_finished(1)[of io s2 s3] tree_tests_finished(2)[of io s3 s4]
      tree_tests_finished(3)[of io s4 s5]
    by (simp add: roll_up_def test_p_send_def)
qed

lemma work_iteration_finished:
  assumes "work_iteration env io s = Returns s'" and "\<not> finished s"
  shows "finished s' \<longleftrightarrow> exit_test s'"
proof -
  from assms(1) obtain s6 where b: "before_parent_send env io s = Returns s6"
    and e: "s' = set_finished (send_to_parent s6)"
    by (auto simp: work_iteration_def and_then_Returns)
  have "\<not> finished (send_to_parent s6)"
    using before_parent_send_finished[OF b] assms(2) by (simp add: send_to_parent_def Let_def)
  then show ?thesis
    unfolding e by (simp add: set_finished_def exit_test_def)
qed

lemma work_loop_exit_test:
  "work_loop env ios s = Returns s' \<Longrightarrow> \<not> finished s \<Longrightarrow> exit_test s'"
proof (induction ios arbitrary: s)
  case Nil
  then show ?case by (simp split: if_splits)
next
  case (Cons io ios)
  from Cons.prems obtain s1 where i: "work_iteration env io s = Returns s1"
    and l: "work_loop env ios s1 = Returns s'"
    by (auto simp: and_then_Returns)
  show ?case
  proof (cases "finished s1")
    case True
    then have "s' = s1" using l by (cases ios) simp_all
    with True work_iteration_finished[OF i Cons.prems(2)] show ?thesis by simp
  next
    case False
    from Cons.IH[OF l False] show ?thesis .
  qed
qed

lemma setup_steps_finished:
  "finished (post_c1_recv s) = finished s" "finished (post_c2_recv s) = finished s"
  "finished (post_p_recv s) = finished s"
  by (simp_all add: post_c1_recv_def post_c2_recv_def post_p_recv_def)

lemma post_photon_recv_finished:
  "post_photon_recv e s = Returns s' \<Longrightarrow> finished s' = finished s"
  by (auto simp: post_photon_recv_def split: prod.splits if_splits)

lemma driver_setup_not_finished:
  assumes "driver_setup env src abs_E g = Returns s0"
  shows "\<not> finished s0"
proof -
  define s where "s = post_p_recv (post_c2_recv (post_c1_recv (initial_state env src abs_E g)))"
  have n: "\<not> finished s"
    by (simp add: s_def setup_steps_finished initial_state_def split: prod.splits)
  have f: "for_each post_photon_recv (adjacent_procs s) s = Returns s0"
    using assms by (simp add: driver_setup_def s_def Let_def)
  show ?thesis
    using for_each_preserves[where P="\<lambda>t. \<not> finished t" and f=post_photon_recv, OF _ f n]
    by (simp add: post_photon_recv_finished)
qed

text \<open>
  C4. The work loop, entered after set-up, returns only in a state in which
  \<^verbatim>\<open>tree_count == n_global\<close> or \<^verbatim>\<open>parent_count == n_global\<close>. And every pass through the body
  that starts with the flag clear ends with the test: the loop returns the state at the
  end of the pass when one of the two equalities holds there, and goes on with the next
  pass when neither does.
\<close>

theorem work_loop_leaves_on_exit_test:
  assumes "driver_setup env src abs_E g = Returns s0"
  shows "(work_loop env ios s0 = Returns s'
            \<longrightarrow> tree_count s' = n_global s' \<or> parent_count s' = n_global s')
       \<and> (\<not> finished s \<and> work_iteration env io s = Returns s1
            \<longrightarrow> work_loop env (io # rest) s =
                  (if tree_count s1 = n_global s1 \<or> parent_count s1 = n_global s1
                   then Returns s1 else work_loop env rest s1))"
proof -
  have a: "work_loop env ios s0 = Returns s'
            \<longrightarrow> tree_count s' = n_global s' \<or> parent_count s' = n_global s'"
    using work_loop_exit_test[of env ios s0 s'] driver_setup_not_finished[OF assms]
    by (auto simp: exit_test_def)
  have b: "work_loop env (io # rest) s =
                  (if tree_count s1 = n_global s1 \<or> parent_count s1 = n_global s1
                   then Returns s1 else work_loop env rest s1)"
    if "\<not> finished s" "work_iteration env io s = Returns s1"
  proof -
    have f: "finished s1 \<longleftrightarrow> tree_count s1 = n_global s1 \<or> parent_count s1 = n_global s1"
      using work_iteration_finished[OF that(2,1)] by (simp add: exit_test_def)
    have "work_loop env rest s1 = Returns s1" if "finished s1"
      using that by (cases rest) simp_all
    with that f show ?thesis by (simp add: and_then_def)
  qed
  from a b show ?thesis by blast
qed

subsection \<open>The runs of the two ranks\<close>

lemma track_batch_unfold:
  "track_batch env n s =
     (if n = 0 then Returns s
      else if phtn_recv_stack s \<noteq> [] \<or> n_local_sourced s < n_local s
           then and_then (track_slot env s) (track_batch env (n - 1))
           else Returns s)"
  by (cases n) simp_all

lemma kill_run:
  "transport_photon_particle_pass (Suc 0) absorber_env (fresh_photon (ln 200)) g ndt ex ce [a] =
     Returns \<lparr>res_event = KILL,
       res_phtn = (fresh_photon 0)\<lparr>ph_pos := (ln 200, 0, 0), ph_E := 1 / 200,
                                   ph_alive := False\<rparr>,
       res_rng = Suc g, res_next_dt = ndt, res_exit_E = ex, res_census_E = ce,
       res_rank_abs_E = [a + 1]\<rparr>"
  by (simp add: absorber_env_def tracker_defs exp_minus ln_div)

lemma crossed_photon_cell: "ph_cell crossed_photon = 7"
  by (simp add: crossed_photon_def)

lemma pass_run:
  "transport_photon_particle_pass (Suc 0) processor_env (fresh_photon 10) g ndt ex ce [a] =
     Returns \<lparr>res_event = PASS, res_phtn = crossed_photon,
       res_rng = Suc g, res_next_dt = ndt, res_exit_E = ex, res_census_E = ce,
       res_rank_abs_E = [a]\<rparr>"
  by (simp add: processor_env_def crossed_photon_def tracker_defs)

lemmas driver_defs =
  transport_particle_pass_def driver_setup_def initial_state_def tree_nodes_def
  post_c1_recv_def post_c2_recv_def post_p_recv_def post_photon_recv_def
  and_then_def next_particle_def apply_event_def track_slot_def
  test_photon_send_def send_is_due_def post_photon_send_def test_photon_recv_def
  index_ok_def process_neighbor_def process_photon_messages_def
  test_c1_recv_def test_c2_recv_def test_p_recv_def test_p_send_def roll_up_def
  parent_send_is_due_def send_to_parent_def exit_test_def set_finished_def
  before_parent_send_def work_iteration_def
  finish_c1_send_def finish_c2_send_def wait_p_send_def barrier_def final_p_send_def
  wait_child_recvs_def finish_neighbor_def wait_photon_recv_def finish_step_def
  new_buffer_def fill_def get_buffer_def set_awaiting_def set_sent_def set_received_def
  reset_def empty_def awaiting_def sent_def received_def
  slab_rank_def quiet_def Let_def track_batch_unfold

lemmas leaf_states = leaf_pass4_def leaf_pass3_def leaf_at_464_def leaf_pass2_def
  leaf_pass1_def leaf_start_def

lemmas leaf_simps = leaf_env_def driver_defs arrival_def verdict_def kill_run

lemma leaf_setup_eval: "driver_setup leaf_env 2 [0] 0 = Returns leaf_start"
  by (simp add: leaf_start_def leaf_env_def driver_defs absorber_env_def slab_env_def
      fp_real_def)

lemma leaf_pass1_eval: "work_iteration leaf_env quiet leaf_start = Returns leaf_pass1"
  by (simp add: leaf_states leaf_simps)

lemma leaf_pass2_eval: "work_iteration leaf_env arrival leaf_pass1 = Returns leaf_pass2"
  by (simp add: leaf_states leaf_simps)

lemma leaf_at_464_eval: "before_parent_send leaf_env quiet leaf_pass2 = Returns leaf_at_464"
  by (simp add: leaf_states leaf_simps)

lemma leaf_pass3_step: "set_finished (send_to_parent leaf_at_464) = leaf_pass3"
  by (simp add: leaf_states leaf_simps)

lemma leaf_pass3_eval: "work_iteration leaf_env quiet leaf_pass2 = Returns leaf_pass3"
  by (simp add: work_iteration_def leaf_at_464_eval leaf_pass3_step and_then_def)

lemma leaf_pass4_eval: "work_iteration leaf_env verdict leaf_pass3 = Returns leaf_pass4"
  by (simp add: leaf_states leaf_simps)

lemma leaf_at_515_eval:
  "barrier (wait_p_send (finish_c2_send (finish_c1_send leaf_pass4))) = leaf_at_515"
  by (simp add: leaf_at_515_def leaf_states leaf_simps)

lemma leaf_finish_eval: "finish_step leaf_pass4 = Returns leaf_final"
  by (simp add: leaf_final_def leaf_at_515_def leaf_states leaf_simps)

lemma leaf_flags: "\<not> finished leaf_start" "\<not> finished leaf_pass1" "\<not> finished leaf_pass2"
  "\<not> finished leaf_pass3" "finished leaf_pass4"
  by (simp_all add: leaf_states leaf_simps)

lemma leaf_loop_eval:
  "work_loop leaf_env [quiet, arrival, quiet, verdict] leaf_start = Returns leaf_pass4"
  by (simp add: leaf_flags leaf_pass1_eval leaf_pass2_eval leaf_pass3_eval leaf_pass4_eval
      and_then_def)

lemma leaf_run_eval:
  "transport_particle_pass leaf_env [quiet, arrival, quiet, verdict] 2 [0] 0
     = Returns leaf_final"
  by (simp add: transport_particle_pass_def leaf_setup_eval leaf_flags leaf_pass1_eval
      leaf_pass2_eval leaf_pass3_eval leaf_pass4_eval leaf_finish_eval and_then_def)

lemmas root_states = root_pass1_def root_tracked_def root_start_def

lemmas root_simps = root_env_def driver_defs pass_run crossed_photon_cell

lemma root_setup_eval: "driver_setup root_env 1 [0] 0 = Returns root_start"
  by (simp add: root_states root_simps processor_env_def slab_env_def fp_real_def)

lemma root_batch_eval:
  "track_batch root_env (unat (batch_size root_start)) root_start = Returns root_tracked"
  by (simp add: root_states root_simps)


lemma root_neighbor_eval: "process_neighbor quiet (1, 0) root_tracked = Returns root_pass1"
  by (simp add: root_states root_simps)

lemma root_comm_eval: "process_photon_messages quiet root_tracked = Returns root_pass1"
  by (simp add: root_states root_simps)

lemma root_pass1_eval: "work_iteration root_env quiet root_start = Returns root_pass1"
  by (simp add: root_states root_simps)

lemma root_pass2_eval: "work_iteration root_env count_arrives root_pass1 = Returns root_pass2"
  by (simp add: root_pass2_def count_arrives_def root_states root_simps)

lemma root_finish_eval: "finish_step root_pass2 = Returns root_final"
  by (simp add: root_final_def root_pass2_def root_states root_simps)

lemma root_flags: "\<not> finished root_start" "\<not> finished root_pass1" "finished root_pass2"
  by (simp_all add: root_pass2_def root_states root_simps)

lemma root_run_eval:
  "transport_particle_pass root_env [quiet, count_arrives] 1 [0] 0 = Returns root_final"
  unfolding transport_particle_pass_def root_setup_eval
  by (simp add: root_flags root_pass1_eval root_pass2_eval root_finish_eval and_then_def)

lemma idle_run_eval:
  "transport_particle_pass idle_env [quiet] 0 [0] 0 = Returns idle_final"
  by (simp add: idle_final_def idle_start_def idle_env_def driver_defs
      absorber_env_def slab_env_def fp_real_def)

theorem work_loop_leaves_on_exit_test_witness:
  "driver_setup leaf_env 2 [0] 0 = Returns leaf_start
   \<and> work_loop leaf_env [quiet, arrival, quiet, verdict] leaf_start = Returns leaf_pass4
   \<and> parent_count leaf_pass4 = n_global leaf_pass4
   \<and> \<not> finished leaf_start
   \<and> work_iteration leaf_env quiet leaf_start = Returns leaf_pass1
   \<and> tree_count leaf_pass1 \<noteq> n_global leaf_pass1
   \<and> parent_count leaf_pass1 \<noteq> n_global leaf_pass1
   \<and> work_loop leaf_env [quiet, arrival, quiet, verdict] leaf_start
       = work_loop leaf_env [arrival, quiet, verdict] leaf_pass1"
proof -
  have t: "tree_count leaf_pass4 \<noteq> n_global leaf_pass4"
    "tree_count leaf_pass1 \<noteq> n_global leaf_pass1"
    "parent_count leaf_pass1 \<noteq> n_global leaf_pass1"
    by (simp_all add: leaf_states leaf_simps)
  from work_loop_leaves_on_exit_test
    [OF leaf_setup_eval, of "[quiet, arrival, quiet, verdict]" leaf_pass4 leaf_start quiet
       leaf_pass1 "[arrival, quiet, verdict]"]
  have "parent_count leaf_pass4 = n_global leaf_pass4
      \<and> work_loop leaf_env [quiet, arrival, quiet, verdict] leaf_start
          = work_loop leaf_env [arrival, quiet, verdict] leaf_pass1"
    using leaf_loop_eval leaf_flags(1) leaf_pass1_eval t by auto
  with leaf_setup_eval leaf_loop_eval leaf_flags(1) leaf_pass1_eval t show ?thesis by blast
qed

subsection \<open>Photon sends\<close>

lemma test_photon_send_frame:
  "send_list (test_photon_send io i_b s) = send_list s"
  "mpi_log (test_photon_send io i_b s) = mpi_log s"
  "n_sends_posted (test_photon_send io i_b s) = n_sends_posted s"
  "max_buffer_size (test_photon_send io i_b s) = max_buffer_size s"
  "n_local_sourced (test_photon_send io i_b s) = n_local_sourced s"
  "n_local (test_photon_send io i_b s) = n_local s"
  "n_photons_sent (test_photon_send io i_b s) = n_photons_sent s"
  "n_photon_messages (test_photon_send io i_b s) = n_photon_messages s"
  "length (phtn_send_buffer (test_photon_send io i_b s)) = length (phtn_send_buffer s)"
  "length (phtn_send_request (test_photon_send io i_b s)) = length (phtn_send_request s)"
  by (simp_all add: test_photon_send_def)

lemma test_photon_send_status:
  "i_b < length (phtn_send_buffer s) \<Longrightarrow>
   status (phtn_send_buffer (test_photon_send io i_b s) ! i_b) = EMPTY \<longleftrightarrow>
     status (phtn_send_buffer s ! i_b) = EMPTY
     \<or> status (phtn_send_buffer s ! i_b) = SENT \<and> phtn_send_test io i_b"
  by (auto simp: test_photon_send_def sent_def reset_def)

lemma filter_drop_single:
  "\<not> P x \<Longrightarrow> filter P (drop n [x]) = []"
  by (cases n) simp_all

lemma test_photon_recv_log:
  "filter is_isend (drop n (mpi_log (test_photon_recv io adj_rank i_b s)))
     = filter is_isend (drop n (mpi_log s))"
  by (simp add: test_photon_recv_def Let_def filter_drop_single is_isend_def split: option.splits)

lemma test_photon_recv_frame:
  "send_list (test_photon_recv io adj_rank i_b s) = send_list s"
  "n_sends_posted (test_photon_recv io adj_rank i_b s) = n_sends_posted s"
  "phtn_send_buffer (test_photon_recv io adj_rank i_b s) = phtn_send_buffer s"
  "phtn_send_request (test_photon_recv io adj_rank i_b s) = phtn_send_request s"
  "n_photons_sent (test_photon_recv io adj_rank i_b s) = n_photons_sent s"
  "n_photon_messages (test_photon_recv io adj_rank i_b s) = n_photon_messages s"
  by (simp_all add: test_photon_recv_def Let_def split: option.splits)

lemma post_photon_send_due:
  assumes "send_is_due i_b s" and "i_b < length (send_list s)"
    and "i_b < length (phtn_send_buffer s)" and "i_b < length (phtn_send_request s)"
  shows "mpi_log (post_photon_send adj_rank i_b s) = mpi_log s @
           [Isend (Some adj_rank) photon_tag
              (Photons (take (min (length (send_list s ! i_b)) (unat (max_buffer_size s)))
                          (send_list s ! i_b)))]"
    and "send_list (post_photon_send adj_rank i_b s) ! i_b =
           drop (min (length (send_list s ! i_b)) (unat (max_buffer_size s))) (send_list s ! i_b)"
    and "phtn_send_buffer (post_photon_send adj_rank i_b s) ! i_b =
           \<lparr>object = take (min (length (send_list s ! i_b)) (unat (max_buffer_size s)))
                       (send_list s ! i_b),
            status = SENT\<rparr>"
    and "phtn_send_request (post_photon_send adj_rank i_b s) ! i_b = InFlight"
    and "n_sends_posted (post_photon_send adj_rank i_b s) = n_sends_posted s + 1"
    and "n_photons_sent (post_photon_send adj_rank i_b s) = n_photons_sent s
           + of_nat (min (length (send_list s ! i_b)) (unat (max_buffer_size s)))"
    and "n_photon_messages (post_photon_send adj_rank i_b s) = n_photon_messages s + 1"
proof -
  have e: "status (phtn_send_buffer s ! i_b) = EMPTY"
    using assms(1) by (simp add: send_is_due_def empty_def)
  have m: "(if length (send_list s ! i_b) < unat (max_buffer_size s)
            then length (send_list s ! i_b) else unat (max_buffer_size s))
           = min (length (send_list s ! i_b)) (unat (max_buffer_size s))"
    by (simp add: min_def)
  show "mpi_log (post_photon_send adj_rank i_b s) = mpi_log s @
           [Isend (Some adj_rank) photon_tag
              (Photons (take (min (length (send_list s ! i_b)) (unat (max_buffer_size s)))
                          (send_list s ! i_b)))]"
    using assms(1) by (simp add: post_photon_send_def Let_def m fill_def get_buffer_def)
  show "send_list (post_photon_send adj_rank i_b s) ! i_b =
           drop (min (length (send_list s ! i_b)) (unat (max_buffer_size s))) (send_list s ! i_b)"
    using assms(1,2) by (simp add: post_photon_send_def Let_def m)
  show "phtn_send_buffer (post_photon_send adj_rank i_b s) ! i_b =
           \<lparr>object = take (min (length (send_list s ! i_b)) (unat (max_buffer_size s)))
                       (send_list s ! i_b),
            status = SENT\<rparr>"
    using assms(1,3) e
    by (simp add: post_photon_send_def Let_def m fill_def set_sent_def)
  show "phtn_send_request (post_photon_send adj_rank i_b s) ! i_b = InFlight"
    using assms(1,4) by (simp add: post_photon_send_def Let_def)
  show "n_sends_posted (post_photon_send adj_rank i_b s) = n_sends_posted s + 1"
    using assms(1) by (simp add: post_photon_send_def Let_def)
  show "n_photons_sent (post_photon_send adj_rank i_b s) = n_photons_sent s
           + of_nat (min (length (send_list s ! i_b)) (unat (max_buffer_size s)))"
    using assms(1) by (simp add: post_photon_send_def Let_def m)
  show "n_photon_messages (post_photon_send adj_rank i_b s) = n_photon_messages s + 1"
    using assms(1) by (simp add: post_photon_send_def Let_def)
qed

lemma post_photon_send_not_due:
  "\<not> send_is_due i_b s \<Longrightarrow> post_photon_send adj_rank i_b s = s"
  by (simp add: post_photon_send_def)

lemma neighbor_send_policy:
  assumes "process_neighbor io (adj_rank, i_b) s = Returns s'"
  shows "let buffer_is_empty =
               (status (phtn_send_buffer s ! i_b) = EMPTY
                \<or> status (phtn_send_buffer s ! i_b) = SENT \<and> phtn_send_test io i_b);
             staged = send_list s ! i_b;
             due = (buffer_is_empty \<and> staged \<noteq> []
                    \<and> (unat (max_buffer_size s) \<le> length staged
                       \<or> n_local_sourced s = n_local s));
             k = min (length staged) (unat (max_buffer_size s))
         in filter is_isend (calls_since s s') =
              (if due then [Isend (Some adj_rank) photon_tag (Photons (take k staged))] else [])
          \<and> (due \<longrightarrow> send_list s' ! i_b = drop k staged
                    \<and> phtn_send_buffer s' ! i_b = \<lparr>object = take k staged, status = SENT\<rparr>
                    \<and> phtn_send_request s' ! i_b = InFlight
                    \<and> n_sends_posted s' = n_sends_posted s + 1
                    \<and> n_photons_sent s' = n_photons_sent s + of_nat k
                    \<and> n_photon_messages s' = n_photon_messages s + 1)
          \<and> (\<not> due \<longrightarrow> send_list s' = send_list s
                    \<and> n_sends_posted s' = n_sends_posted s
                    \<and> n_photons_sent s' = n_photons_sent s
                    \<and> n_photon_messages s' = n_photon_messages s)"
proof -
  define s1 where "s1 = test_photon_send io i_b s"
  define s2 where "s2 = post_photon_send adj_rank i_b s1"
  from assms have ok: "index_ok i_b s" and s': "s' = test_photon_recv io adj_rank i_b s2"
    by (auto simp: process_neighbor_def s1_def s2_def split: if_splits)
  have r: "i_b < length (send_list s1)" "i_b < length (phtn_send_buffer s1)"
    "i_b < length (phtn_send_request s1)" "i_b < length (phtn_send_buffer s)"
    using ok by (simp_all add: index_ok_def s1_def test_photon_send_frame)
  have due: "send_is_due i_b s1 \<longleftrightarrow>
      ((status (phtn_send_buffer s ! i_b) = EMPTY
                \<or> status (phtn_send_buffer s ! i_b) = SENT \<and> phtn_send_test io i_b)
       \<and> send_list s ! i_b \<noteq> []
       \<and> (unat (max_buffer_size s) \<le> length (send_list s ! i_b)
            \<or> n_local_sourced s = n_local s))"
    using test_photon_send_status[OF r(4), of io]
    by (simp add: send_is_due_def empty_def s1_def test_photon_send_frame)
  have log: "filter is_isend (calls_since s s') = filter is_isend (drop (length (mpi_log s1)) (mpi_log s2))"
    by (simp add: calls_since_def s' test_photon_recv_log s1_def test_photon_send_frame)
  show ?thesis
  proof (cases "send_is_due i_b s1")
    case True
    note p = post_photon_send_due[OF True r(1-3), of adj_rank, folded s2_def]
    show ?thesis
      using True due log p
      by (simp add: Let_def s' test_photon_recv_frame s1_def test_photon_send_frame is_isend_def)
  next
    case False
    then have e: "s2 = s1" by (simp add: s2_def post_photon_send_not_due)
    have "filter is_isend (calls_since s s') = []"
      using log by (simp add: e)
    moreover have "send_list s' = send_list s" "n_sends_posted s' = n_sends_posted s"
      "n_photons_sent s' = n_photons_sent s" "n_photon_messages s' = n_photon_messages s"
      by (simp_all add: s' e test_photon_recv_frame s1_def test_photon_send_frame)
    ultimately show ?thesis
      using False due by (auto simp: Let_def)
  qed
qed


lemma for_each_chain:
  "for_each f xs s = Returns s' \<Longrightarrow>
   \<exists>states. length states = Suc (length xs) \<and> states ! 0 = s \<and> last states = s' \<and>
     (\<forall>j < length xs. f (xs ! j) (states ! j) = Returns (states ! Suc j))"
proof (induction xs arbitrary: s)
  case Nil
  then show ?case by (intro exI[of _ "[s]"]) simp
next
  case (Cons x xs)
  from Cons.prems obtain s1
    where a: "f x s = Returns s1" and b: "for_each f xs s1 = Returns s'"
    by (auto simp: and_then_Returns)
  from Cons.IH[OF b] obtain states
    where l: "length states = Suc (length xs)" and h: "states ! 0 = s1"
      and e: "last states = s'"
      and c: "\<forall>j < length xs. f (xs ! j) (states ! j) = Returns (states ! Suc j)"
    by blast
  have ne: "states \<noteq> []" using l by auto
  have "\<forall>j < length (x # xs). f ((x # xs) ! j) ((s # states) ! j) = Returns ((s # states) ! Suc j)"
  proof (intro allI impI)
    fix j assume "j < length (x # xs)"
    then show "f ((x # xs) ! j) ((s # states) ! j) = Returns ((s # states) ! Suc j)"
      using a h c by (cases j) auto
  qed
  moreover have "length (s # states) = Suc (length (x # xs))" "(s # states) ! 0 = s"
    "last (s # states) = s'"
    using l e ne by simp_all
  ultimately show ?case by blast
qed

lemma work_iteration_stages:
  assumes "work_iteration env io s = Returns s'"
  shows "\<exists>s1 s2. track_batch env (unat (batch_size s)) s = Returns s1
           \<and> process_photon_messages io s1 = Returns s2"
  using assms by (auto simp: work_iteration_def before_parent_send_def and_then_Returns)

text \<open>
  C5. A pass over the adjacency map serves every neighbor, in the order of the map:
  \<open>states\<close> lists the state before the first neighbor, between neighbors and after the
  last. Every pass through the body of the work loop makes one such pass, after its
  batch. When it is the turn of a neighbor with buffer index \<open>i_b\<close>, the driver posts a
  photon send if and only if the send buffer is empty when line 364 is reached (it was
  empty, or it was flagged as sent and its test succeeded in this turn), the staging list
  is not empty, and the list holds at least \<^verbatim>\<open>max_buffer_size\<close> photons or the source is
  exhausted. No other send is posted in the turn. The send carries the
  first \<open>min (length, max_buffer_size)\<close> photons of the list with the photon tag to the
  neighbor rank; they are removed from the list and are the content of the buffer, which
  is flagged as sent with its request in flight; the counters of posted sends, sent
  photons and photon messages grow by 1, by that number and by 1. Otherwise no send is
  posted and list and counters stay.
\<close>

theorem photon_send_policy:
  assumes "process_photon_messages io s = Returns s'"
  shows "(\<exists>states.
            length states = Suc (length (adjacent_procs s)) \<and> states ! 0 = s
          \<and> last states = s'
          \<and> (\<forall>j < length (adjacent_procs s).
                let adj_rank = fst (adjacent_procs s ! j);
                    i_b = snd (adjacent_procs s ! j);
                    t = states ! j;
                    t' = states ! Suc j;
                    buffer_is_empty =
                      (status (phtn_send_buffer t ! i_b) = EMPTY
                       \<or> status (phtn_send_buffer t ! i_b) = SENT \<and> phtn_send_test io i_b);
                    staged = send_list t ! i_b;
                    due = (buffer_is_empty \<and> staged \<noteq> []
                           \<and> (unat (max_buffer_size t) \<le> length staged
                              \<or> n_local_sourced t = n_local t));
                    k = min (length staged) (unat (max_buffer_size t))
                in process_neighbor io (adjacent_procs s ! j) t = Returns t'
                 \<and> filter is_isend (calls_since t t') =
                     (if due then [Isend (Some adj_rank) photon_tag (Photons (take k staged))]
                      else [])
                 \<and> (due \<longrightarrow> send_list t' ! i_b = drop k staged
                       \<and> phtn_send_buffer t' ! i_b = \<lparr>object = take k staged, status = SENT\<rparr>
                       \<and> phtn_send_request t' ! i_b = InFlight
                       \<and> n_sends_posted t' = n_sends_posted t + 1
                       \<and> n_photons_sent t' = n_photons_sent t + of_nat k
                       \<and> n_photon_messages t' = n_photon_messages t + 1)
                 \<and> (\<not> due \<longrightarrow> send_list t' = send_list t
                       \<and> n_sends_posted t' = n_sends_posted t
                       \<and> n_photons_sent t' = n_photons_sent t
                       \<and> n_photon_messages t' = n_photon_messages t)))
       \<and> (work_iteration env io0 s0 = Returns s3 \<longrightarrow>
            (\<exists>s1 s2. track_batch env (unat (batch_size s0)) s0 = Returns s1
               \<and> process_photon_messages io0 s1 = Returns s2))"
proof -
  from assms have "for_each (process_neighbor io) (adjacent_procs s) s = Returns s'"
    by (simp add: process_photon_messages_def)
  from for_each_chain[OF this] obtain states
    where l: "length states = Suc (length (adjacent_procs s))" and h: "states ! 0 = s"
      and e: "last states = s'"
      and c: "\<forall>j < length (adjacent_procs s).
                process_neighbor io (adjacent_procs s ! j) (states ! j) = Returns (states ! Suc j)"
    by blast
  have p: "let adj_rank = fst (adjacent_procs s ! j);
                    i_b = snd (adjacent_procs s ! j);
                    t = states ! j;
                    t' = states ! Suc j;
                    buffer_is_empty =
                      (status (phtn_send_buffer t ! i_b) = EMPTY
                       \<or> status (phtn_send_buffer t ! i_b) = SENT \<and> phtn_send_test io i_b);
                    staged = send_list t ! i_b;
                    due = (buffer_is_empty \<and> staged \<noteq> []
                           \<and> (unat (max_buffer_size t) \<le> length staged
                              \<or> n_local_sourced t = n_local t));
                    k = min (length staged) (unat (max_buffer_size t))
                in process_neighbor io (adjacent_procs s ! j) t = Returns t'
                 \<and> filter is_isend (calls_since t t') =
                     (if due then [Isend (Some adj_rank) photon_tag (Photons (take k staged))]
                      else [])
                 \<and> (due \<longrightarrow> send_list t' ! i_b = drop k staged
                       \<and> phtn_send_buffer t' ! i_b = \<lparr>object = take k staged, status = SENT\<rparr>
                       \<and> phtn_send_request t' ! i_b = InFlight
                       \<and> n_sends_posted t' = n_sends_posted t + 1
                       \<and> n_photons_sent t' = n_photons_sent t + of_nat k
                       \<and> n_photon_messages t' = n_photon_messages t + 1)
                 \<and> (\<not> due \<longrightarrow> send_list t' = send_list t
                       \<and> n_sends_posted t' = n_sends_posted t
                       \<and> n_photons_sent t' = n_photons_sent t
                       \<and> n_photon_messages t' = n_photon_messages t)"
    if "j < length (adjacent_procs s)" for j
  proof -
    have n: "process_neighbor io (fst (adjacent_procs s ! j), snd (adjacent_procs s ! j))
               (states ! j) = Returns (states ! Suc j)"
      using c that by simp
    show ?thesis
      using neighbor_send_policy[OF n] n by (simp add: Let_def)
  qed
  have q: "\<exists>s1 s2. track_batch env (unat (batch_size s0)) s0 = Returns s1
               \<and> process_photon_messages io0 s1 = Returns s2"
    if "work_iteration env io0 s0 = Returns s3"
    using work_iteration_stages[OF that] .
  from l h e p q show ?thesis by blast
qed

theorem photon_send_policy_witness:
  "process_photon_messages quiet root_tracked = Returns root_pass1
   \<and> adjacent_procs root_tracked = [(1, 0)]
   \<and> status (phtn_send_buffer root_tracked ! 0) = EMPTY
   \<and> send_list root_tracked ! 0 = [crossed_photon]
   \<and> unat (max_buffer_size root_tracked) = 1
   \<and> filter is_isend (calls_since root_tracked root_pass1)
        = [Isend (Some 1) photon_tag (Photons [crossed_photon])]
   \<and> send_list root_pass1 ! 0 = []
   \<and> phtn_send_buffer root_pass1 ! 0 = \<lparr>object = [crossed_photon], status = SENT\<rparr>
   \<and> phtn_send_request root_pass1 ! 0 = InFlight
   \<and> n_sends_posted root_pass1 = n_sends_posted root_tracked + 1
   \<and> work_iteration root_env quiet root_start = Returns root_pass1
   \<and> track_batch root_env (unat (batch_size root_start)) root_start = Returns root_tracked"
proof -
  have h: "status (phtn_send_buffer root_tracked ! 0) = EMPTY"
    "send_list root_tracked ! 0 = [crossed_photon]"
    "unat (max_buffer_size root_tracked) = 1"
    "adjacent_procs root_tracked = [(1, 0)]"
    by (simp_all add: root_states root_simps)
  from photon_send_policy [OF root_comm_eval, of root_env quiet root_start root_pass1]
  obtain states where l: "length states = Suc (length (adjacent_procs root_tracked))"
    and s0: "states ! 0 = root_tracked" and sl: "last states = root_pass1"
    and p: "\<forall>j < length (adjacent_procs root_tracked).
                let adj_rank = fst (adjacent_procs root_tracked ! j);
                    i_b = snd (adjacent_procs root_tracked ! j);
                    t = states ! j;
                    t' = states ! Suc j;
                    buffer_is_empty =
                      (status (phtn_send_buffer t ! i_b) = EMPTY
                       \<or> status (phtn_send_buffer t ! i_b) = SENT
                          \<and> phtn_send_test quiet i_b);
                    staged = send_list t ! i_b;
                    due = (buffer_is_empty \<and> staged \<noteq> []
                           \<and> (unat (max_buffer_size t) \<le> length staged
                              \<or> n_local_sourced t = n_local t));
                    k = min (length staged) (unat (max_buffer_size t))
                in process_neighbor quiet (adjacent_procs root_tracked ! j) t = Returns t'
                 \<and> filter is_isend (calls_since t t') =
                     (if due then [Isend (Some adj_rank) photon_tag (Photons (take k staged))]
                      else [])
                 \<and> (due \<longrightarrow> send_list t' ! i_b = drop k staged
                       \<and> phtn_send_buffer t' ! i_b = \<lparr>object = take k staged, status = SENT\<rparr>
                       \<and> phtn_send_request t' ! i_b = InFlight
                       \<and> n_sends_posted t' = n_sends_posted t + 1
                       \<and> n_photons_sent t' = n_photons_sent t + of_nat k
                       \<and> n_photon_messages t' = n_photon_messages t + 1)
                 \<and> (\<not> due \<longrightarrow> send_list t' = send_list t
                       \<and> n_sends_posted t' = n_sends_posted t
                       \<and> n_photons_sent t' = n_photons_sent t
                       \<and> n_photon_messages t' = n_photon_messages t)"
    by blast
  have "states \<noteq> []" using l by auto
  then have "last states = states ! (length states - 1)" by (rule last_conv_nth)
  then have s1: "states ! Suc 0 = root_pass1"
    using l sl h(4) by simp
  from p h(4) have "let adj_rank = fst (adjacent_procs root_tracked ! 0);
                    i_b = snd (adjacent_procs root_tracked ! 0);
                    t = states ! 0;
                    t' = states ! Suc 0;
                    buffer_is_empty =
                      (status (phtn_send_buffer t ! i_b) = EMPTY
                       \<or> status (phtn_send_buffer t ! i_b) = SENT
                          \<and> phtn_send_test quiet i_b);
                    staged = send_list t ! i_b;
                    due = (buffer_is_empty \<and> staged \<noteq> []
                           \<and> (unat (max_buffer_size t) \<le> length staged
                              \<or> n_local_sourced t = n_local t));
                    k = min (length staged) (unat (max_buffer_size t))
                in filter is_isend (calls_since t t') =
                     (if due then [Isend (Some adj_rank) photon_tag (Photons (take k staged))]
                      else [])
                 \<and> (due \<longrightarrow> send_list t' ! i_b = drop k staged
                       \<and> phtn_send_buffer t' ! i_b = \<lparr>object = take k staged, status = SENT\<rparr>
                       \<and> phtn_send_request t' ! i_b = InFlight
                       \<and> n_sends_posted t' = n_sends_posted t + 1)"
    by (simp add: Let_def)
  then have "filter is_isend (calls_since root_tracked root_pass1)
        = [Isend (Some 1) photon_tag (Photons [crossed_photon])]
   \<and> send_list root_pass1 ! 0 = []
   \<and> phtn_send_buffer root_pass1 ! 0 = \<lparr>object = [crossed_photon], status = SENT\<rparr>
   \<and> phtn_send_request root_pass1 ! 0 = InFlight
   \<and> n_sends_posted root_pass1 = n_sends_posted root_tracked + 1"
    by (simp add: Let_def s0 s1 h)
  with root_comm_eval h root_pass1_eval root_batch_eval show ?thesis by blast
qed

subsection \<open>Batches\<close>





subsection \<open>The send to the parent while an earlier one is in flight\<close>

text \<open>
  C1. The specification lets the upward send be posted only when no earlier send to the parent is
  still in flight. Line 464 does not look at the send buffer or its request. On rank 1 of
  the two-rank run, the third pass reaches line 464 with the request of the first send
  still in flight and its buffer flagged as sent, and posts a second send, with count 1,
  and clears \<^verbatim>\<open>tree_count\<close>.
\<close>

theorem parent_send_posted_while_in_flight:
  "driver_setup leaf_env 2 [0] 0 = Returns leaf_start
   \<and> work_iteration leaf_env quiet leaf_start = Returns leaf_pass1
   \<and> work_iteration leaf_env arrival leaf_pass1 = Returns leaf_pass2
   \<and> before_parent_send leaf_env quiet leaf_pass2 = Returns leaf_at_464
   \<and> p_send_request leaf_at_464 = InFlight
   \<and> sent (p_send_buffer leaf_at_464)
   \<and> calls_since leaf_at_464 (send_to_parent leaf_at_464)
        = [Isend (Some 0) count_tag (Counts [1])]
   \<and> n_sends_posted (send_to_parent leaf_at_464) = n_sends_posted leaf_at_464 + 1
   \<and> tree_count (send_to_parent leaf_at_464) = 0"
proof -
  have "p_send_request leaf_at_464 = InFlight" "sent (p_send_buffer leaf_at_464)"
    "calls_since leaf_at_464 (send_to_parent leaf_at_464)
        = [Isend (Some 0) count_tag (Counts [1])]"
    "n_sends_posted (send_to_parent leaf_at_464) = n_sends_posted leaf_at_464 + 1"
    "tree_count (send_to_parent leaf_at_464) = 0"
    by (simp_all add: calls_since_def leaf_states leaf_simps)
  with leaf_setup_eval leaf_pass1_eval leaf_pass2_eval leaf_at_464_eval show ?thesis by blast
qed

text \<open>
  C2. The specification has the send buffer for the parent filled only while it is empty. In the
  same run, line 465 replaces the content \<open>[2]\<close> of the buffer by \<open>[1]\<close> while the buffer is
  flagged as sent and the request of the send that reads it is in flight. The loop then
  ends with the buffer still flagged as sent; lines 502-505 wait for the request and do
  not reset the buffer, so that line 515 fills it with the flag still set.
\<close>

theorem parent_buffer_filled_while_sent:
  "before_parent_send leaf_env quiet leaf_pass2 = Returns leaf_at_464
   \<and> p_send_buffer leaf_at_464 = \<lparr>object = [2], status = SENT\<rparr>
   \<and> p_send_request leaf_at_464 = InFlight
   \<and> p_send_buffer (send_to_parent leaf_at_464) = \<lparr>object = [1], status = SENT\<rparr>
   \<and> work_loop leaf_env [quiet, arrival, quiet, verdict] leaf_start = Returns leaf_pass4
   \<and> barrier (wait_p_send (finish_c2_send (finish_c1_send leaf_pass4))) = leaf_at_515
   \<and> status (p_send_buffer leaf_at_515) = SENT
   \<and> p_send_buffer (final_p_send leaf_at_515) = fill [1] (p_send_buffer leaf_at_515)"
proof -
  have "p_send_buffer leaf_at_464 = \<lparr>object = [2], status = SENT\<rparr>"
    "p_send_request leaf_at_464 = InFlight"
    "p_send_buffer (send_to_parent leaf_at_464) = \<lparr>object = [1], status = SENT\<rparr>"
    "status (p_send_buffer leaf_at_515) = SENT"
    "p_send_buffer (final_p_send leaf_at_515) = fill [1] (p_send_buffer leaf_at_515)"
    by (simp_all add: leaf_at_515_def leaf_states leaf_simps)
  with leaf_at_464_eval leaf_loop_eval leaf_at_515_eval show ?thesis by blast
qed

subsection \<open>The counters at the end of the step\<close>

text \<open>
  C3. The specification has \<^verbatim>\<open>n_sends_posted == n_sends_completed\<close> and
  \<^verbatim>\<open>n_receives_posted == n_receives_completed\<close> when the step ends. On rank 0 of the
  two-rank run the photon send is still flagged as sent when the loop ends; line 541
  waits for it without counting it, and the step ends with 3 sends posted and 2
  completed. On rank 1 the request overwritten at line 466 is never counted: 4 posted, 3
  completed. In the step without photons rank 1 leaves the loop through
  \<^verbatim>\<open>tree_count == n_global\<close> before the count of the parent has arrived, and nothing
  waits for that receive: 2 receives posted, 1 completed.
\<close>

theorem counters_differ_at_exit:
  "transport_particle_pass root_env [quiet, count_arrives] 1 [0] 0 = Returns root_final
   \<and> status (phtn_send_buffer root_pass2 ! 0) = SENT
   \<and> n_sends_posted root_final = 3 \<and> n_sends_completed root_final = 2
   \<and> transport_particle_pass leaf_env [quiet, arrival, quiet, verdict] 2 [0] 0
        = Returns leaf_final
   \<and> n_sends_posted leaf_final = 4 \<and> n_sends_completed leaf_final = 3
   \<and> transport_particle_pass idle_env [quiet] 0 [0] 0 = Returns idle_final
   \<and> n_receives_posted idle_final = 2 \<and> n_receives_completed idle_final = 1"
proof -
  have "status (phtn_send_buffer root_pass2 ! 0) = SENT"
    "n_sends_posted root_final = 3" "n_sends_completed root_final = 2"
    by (simp_all add: root_final_def root_pass2_def root_states)
  moreover have "n_sends_posted leaf_final = 4" "n_sends_completed leaf_final = 3"
    by (simp_all add: leaf_final_def)
  moreover have "n_receives_posted idle_final = 2" "n_receives_completed idle_final = 1"
    by (simp_all add: idle_final_def idle_start_def)
  ultimately show ?thesis using root_run_eval leaf_run_eval idle_run_eval by blast
qed

end
